theory Spec2Isabelle
  imports Main "HOL-Library.Word"
begin

unbundle bit_operations_syntax

section \<open>Data model\<close>

text \<open>
  The gateway of \<^verbatim>\<open>odoh.go\<close>: an HTTP handler that decodes a DNS query carried in a GET
  parameter or a POST body, builds a fresh query, sends it to the configured resolver over
  TCP and relays the packed answer.

  Go's \<^verbatim>\<open>[]byte\<close> is a list of 8-bit words, \<^verbatim>\<open>uint16\<close> a 16-bit word and
  \<^verbatim>\<open>time.Duration\<close> (an \<^verbatim>\<open>int64\<close> count of nanoseconds) a 64-bit word, so that
  arithmetic wraps as it does in Go.
\<close>

type_synonym byte = "8 word"
type_synonym uint16 = "16 word"
type_synonym Duration = "64 word"

text \<open>
  Go's \<^verbatim>\<open>error\<close> values. A nil error is \<open>None\<close> of type \<open>error option\<close>.
  \<open>Errorf\<close> carries the text given to \<^verbatim>\<open>fmt.Errorf\<close>; \<open>CorruptInputError\<close> is
  the error of \<^verbatim>\<open>encoding/base64\<close> (its byte offset is left out); \<open>LibError\<close> is any
  error produced by the DNS library or the network; \<open>NilPointerPanic\<close> stands for the
  run-time panic of a method call through a nil pointer.
\<close>

datatype error =
    Errorf string
  | CorruptInputError
  | LibError string
  | NilPointerPanic

text \<open>The structs \<^verbatim>\<open>dns.Question\<close>, \<^verbatim>\<open>dns.Msg\<close> (with its embedded
  \<^verbatim>\<open>dns.MsgHdr\<close>) of the DNS library, field for field. A resource record is opaque to the
  gateway; it is kept as owner name, type, class, time to live and raw data.\<close>

record Question =
  Name :: string
  Qtype :: uint16
  Qclass :: uint16

record RR =
  RRName :: string
  Rrtype :: uint16
  Class :: uint16
  Ttl :: "32 word"
  Rdata :: "byte list"

record Msg =
  Id_msg :: uint16
  Response :: bool
  Opcode :: int
  Authoritative :: bool
  Truncated :: bool
  RecursionDesired :: bool
  RecursionAvailable :: bool
  Zero :: bool
  AuthenticatedData :: bool
  CheckingDisabled :: bool
  Rcode :: int
  Question :: "Question list"
  Answer :: "RR list"
  Ns :: "RR list"
  Extra :: "RR list"

text \<open>Go's zero values of the two structs (\<^verbatim>\<open>dns.Question{}\<close>, \<^verbatim>\<open>dns.Msg{}\<close>).\<close>

definition zeroQuestion :: Question where
  "zeroQuestion = \<lparr>Name = [], Qtype = 0, Qclass = 0\<rparr>"

definition zeroMsg :: Msg where
  "zeroMsg = \<lparr>Id_msg = 0, Response = False, Opcode = 0, Authoritative = False,
     Truncated = False, RecursionDesired = False, RecursionAvailable = False, Zero = False,
     AuthenticatedData = False, CheckingDisabled = False, Rcode = 0, Question = [],
     Answer = [], Ns = [], Extra = []\<rparr>"

text \<open>Constants of the DNS library and of package \<^verbatim>\<open>time\<close>.\<close>

definition OpcodeQuery :: int where "OpcodeQuery = 0"
definition RcodeSuccess :: int where "RcodeSuccess = 0"
definition TypeA :: uint16 where "TypeA = 1"
definition TypeAAAA :: uint16 where "TypeAAAA = 28"
definition ClassINET :: uint16 where "ClassINET = 1"
definition Millisecond :: Duration where "Millisecond = 1000000"

text \<open>
  The functions of the DNS library that the gateway calls are parameters of the model:
  \<^verbatim>\<open>(*Msg).Unpack\<close>, \<^verbatim>\<open>(*Msg).Pack\<close>, \<^verbatim>\<open>dns.Type.String\<close> and \<^verbatim>\<open>dns.Fqdn\<close>.
\<close>

record dnslib =
  Unpack :: "byte list \<Rightarrow> error + Msg"
  Pack :: "Msg \<Rightarrow> error + byte list"
  TypeString :: "uint16 \<Rightarrow> string"
  Fqdn :: "string \<Rightarrow> string"

section \<open>Query Synthesizer\<close>

text \<open>
  \<^verbatim>\<open>createQuery(n, t)\<close>. The first argument is \<^verbatim>\<open>dns.Fqdn\<close>, the second the value
  that the call \<^verbatim>\<open>dns.Id()\<close> returns (a random 16-bit number drawn by the library).
  The question slice is made with one zero entry and then written at index 0.
\<close>

definition createQuery :: "(string \<Rightarrow> string) \<Rightarrow> uint16 \<Rightarrow> string \<Rightarrow> string \<Rightarrow> Msg" where
  "createQuery fqdn rid n t =
     (let queryMessage = zeroMsg\<lparr>Opcode := OpcodeQuery, Question := replicate 1 zeroQuestion\<rparr>;
          qtype = (if t = ''A'' then TypeA else TypeAAAA);
          queryMessage = queryMessage\<lparr>Question := (Question queryMessage)
            [0 := \<lparr>Name = fqdn n, Qtype = qtype, Qclass = ClassINET\<rparr>]\<rparr>;
          queryMessage = queryMessage\<lparr>Id_msg := rid\<rparr>;
          queryMessage = queryMessage\<lparr>Rcode := RcodeSuccess\<rparr>;
          queryMessage = queryMessage\<lparr>RecursionDesired := True\<rparr>
      in queryMessage)"

section \<open>Base64 (package encoding/base64, RawURLEncoding)\<close>

text \<open>
  The URL-safe alphabet without padding. A shift to the left by \<open>k\<close> bits is a
  multiplication by \<open>2 ^ k\<close>, a shift to the right a division, the mask \<^verbatim>\<open>0x3F\<close> is
  \<open>mod 64\<close> and the conversion to a byte is \<open>word_of_nat\<close>, which truncates.
\<close>

definition encodeURL :: string where
  "encodeURL = ''ABCDEFGHIJKLMNOPQRSTUVWXYZabcdefghijklmnopqrstuvwxyz0123456789-_''"

definition enc6 :: "nat \<Rightarrow> char" where
  "enc6 v = encodeURL ! (v mod 64)"

fun EncodeToString :: "byte list \<Rightarrow> string" where
  "EncodeToString (b0 # b1 # b2 # src) =
     (let val = unat b0 * 65536 + unat b1 * 256 + unat b2
      in enc6 (val div 262144) # enc6 (val div 4096) # enc6 (val div 64) # enc6 val #
         EncodeToString src)"
| "EncodeToString [b0, b1] =
     (let val = unat b0 * 65536 + unat b1 * 256
      in [enc6 (val div 262144), enc6 (val div 4096), enc6 (val div 64)])"
| "EncodeToString [b0] =
     (let val = unat b0 * 65536
      in [enc6 (val div 262144), enc6 (val div 4096)])"
| "EncodeToString [] = []"

fun index_of :: "'a \<Rightarrow> 'a list \<Rightarrow> nat option" where
  "index_of c [] = None"
| "index_of c (x # xs) = (if x = c then Some 0 else map_option Suc (index_of c xs))"

text \<open>The decode map of the encoding: the 6-bit value of a character of the alphabet,
  \<open>None\<close> (Go: \<^verbatim>\<open>0xFF\<close>) for every other character.\<close>

definition decodeMap :: "char \<Rightarrow> nat option" where
  "decodeMap c = index_of c encodeURL"

text \<open>Quanta of four 6-bit values give three bytes; a final quantum of two or three
  values gives one or two bytes (the unused low bits are not checked, the encoding is not
  strict); a single left-over value is corrupt input.\<close>

fun decodeQuanta :: "nat list \<Rightarrow> error + byte list" where
  "decodeQuanta (v0 # v1 # v2 # v3 # vs) =
     (let val = v0 * 262144 + v1 * 4096 + v2 * 64 + v3
      in case decodeQuanta vs of
           Inl err \<Rightarrow> Inl err
         | Inr dst \<Rightarrow> Inr (word_of_nat (val div 65536) # word_of_nat (val div 256) #
                          word_of_nat val # dst))"
| "decodeQuanta [v0, v1, v2] =
     (let val = v0 * 262144 + v1 * 4096 + v2 * 64
      in Inr [word_of_nat (val div 65536), word_of_nat (val div 256)])"
| "decodeQuanta [v0, v1] =
     (let val = v0 * 262144 + v1 * 4096
      in Inr [word_of_nat (val div 65536)])"
| "decodeQuanta [v0] = Inl CorruptInputError"
| "decodeQuanta [] = Inr []"

text \<open>Carriage returns and line feeds are skipped; any other character outside the
  alphabet (the padding character too) is corrupt input.\<close>

definition decodeBytes :: "string \<Rightarrow> error + byte list" where
  "decodeBytes s =
     (case those (map decodeMap (filter (\<lambda>c. c \<noteq> CHR 0x0A \<and> c \<noteq> CHR 0x0D) s)) of
        None \<Rightarrow> Inl CorruptInputError
      | Some vs \<Rightarrow> decodeQuanta vs)"

text \<open>\<^verbatim>\<open>DecodeString\<close> returns a pair as in Go: the bytes and an error that is nil on
  success. The partial output that Go returns beside an error is not used by the caller
  and is left empty.\<close>

definition DecodeString :: "string \<Rightarrow> byte list \<times> error option" where
  "DecodeString s = (case decodeBytes s of Inl err \<Rightarrow> ([], Some err) | Inr dst \<Rightarrow> (dst, None))"

section \<open>Server, network and HTTP state\<close>

text \<open>
  \<^verbatim>\<open>dns.Conn\<close> embeds a \<^verbatim>\<open>net.Conn\<close>; a TCP connection is named by its handle, nil is
  \<open>None\<close>. The server's field \<^verbatim>\<open>connection\<close> is a pointer: the address of a
  \<^verbatim>\<open>dns.Conn\<close> in the heap of the world, or nil.
\<close>

record dnsConn =
  Conn :: "nat option"

record odohServer =
  verbose :: bool
  nameserver :: string
  timeout :: Duration
  connection :: "nat option"

text \<open>What the program does to the outside, in order. A deadline is
  \<^verbatim>\<open>time.Now().Add(d)\<close>; the event keeps the duration \<open>d\<close> that is added to the
  current time.\<close>

datatype event =
    EvReadBody
  | EvCloseBody
  | EvDialTimeout string string Duration
  | EvSetReadDeadline nat Duration
  | EvSetWriteDeadline nat Duration
  | EvWriteMsg nat Msg
  | EvReadMsg nat

text \<open>The lines written through package \<^verbatim>\<open>log\<close>, one constructor for each call site,
  with the values that are printed (the elapsed time is not modelled).\<close>

datatype logline =
    LogHandling
  | LogUnpacked string Msg
  | LogFailedParsing "error option"
  | LogResolving string string string uint16
  | LogQueryFailed error
  | LogFailedPacking error
  | LogQuery string string string uint16
  | LogAnswer string "RR list"
  | LogFullResponse string "byte list"
  | LogRawResponse string "byte list"

text \<open>
  The world outside the server value: the \<^verbatim>\<open>dns.Conn\<close> objects allocated so far (the
  address of an object is its index), the TCP connections dialled so far (the handle of a
  connection is its index; \<open>True\<close> while it is open), the events and the log.
\<close>

record world =
  heap :: "dnsConn list"
  socks :: "bool list"
  trace :: "event list"
  logs :: "logline list"

definition emit :: "event \<Rightarrow> world \<Rightarrow> world" where
  "emit e w = w\<lparr>trace := trace w @ [e]\<rparr>"

definition logPrint :: "logline \<Rightarrow> world \<Rightarrow> world" where
  "logPrint l w = w\<lparr>logs := logs w @ [l]\<rparr>"

text \<open>
  The resolver and the network are parameters: the outcome of \<^verbatim>\<open>net.DialTimeout\<close> for
  an address and a timeout (nil when the connection is established), the outcome of
  \<^verbatim>\<open>WriteMsg\<close> for a query, the outcome of \<^verbatim>\<open>ReadMsg\<close> after that query was written,
  and the number that \<^verbatim>\<open>dns.Id()\<close> draws.
\<close>

record upstream =
  DialTimeout :: "string \<Rightarrow> Duration \<Rightarrow> error option"
  WriteMsg :: "Msg \<Rightarrow> error option"
  ReadMsg :: "Msg \<Rightarrow> error + Msg"
  Id_gen :: uint16

text \<open>An inbound \<^verbatim>\<open>http.Request\<close>, as far as the handler reads it: the method, the
  value of \<^verbatim>\<open>r.URL.Query().Get("dns")\<close> (empty when the parameter is absent), the value
  of \<^verbatim>\<open>r.Header.Get("Content-Type")\<close>, and what \<^verbatim>\<open>ioutil.ReadAll(r.Body)\<close> returns
  (the bytes and an error that is nil on success).\<close>

record Request =
  Method :: string
  URL_Query_dns :: string
  Header_Content_Type :: string
  Body_ReadAll :: "byte list \<times> error option"

text \<open>An \<^verbatim>\<open>http.ResponseWriter\<close>: the header map, the status code once it is written,
  and the body written so far.\<close>

record ResponseWriter =
  Header :: "string \<rightharpoonup> string"
  Status :: "nat option"
  Written :: "byte list"

definition newResponseWriter :: ResponseWriter where
  "newResponseWriter = \<lparr>Header = Map.empty, Status = None, Written = []\<rparr>"

definition bytes_of :: "string \<Rightarrow> byte list" where
  "bytes_of s = map (\<lambda>c. word_of_nat (of_char c)) s"

definition StatusOK :: nat where "StatusOK = 200"
definition StatusBadRequest :: nat where "StatusBadRequest = 400"
definition StatusInternalServerError :: nat where "StatusInternalServerError = 500"

definition StatusText :: "nat \<Rightarrow> string" where
  "StatusText code =
     (if code = StatusOK then ''OK''
      else if code = StatusBadRequest then ''Bad Request''
      else if code = StatusInternalServerError then ''Internal Server Error''
      else [])"

definition Header_Set :: "string \<Rightarrow> string \<Rightarrow> ResponseWriter \<Rightarrow> ResponseWriter" where
  "Header_Set k v rw = rw\<lparr>Header := (Header rw)(k \<mapsto> v)\<rparr>"

text \<open>Only the first \<^verbatim>\<open>WriteHeader\<close> counts; \<^verbatim>\<open>Write\<close> sends status 200 first when no
  status has been written.\<close>

definition WriteHeader :: "nat \<Rightarrow> ResponseWriter \<Rightarrow> ResponseWriter" where
  "WriteHeader code rw = (if Status rw = None then rw\<lparr>Status := Some code\<rparr> else rw)"

definition Write :: "byte list \<Rightarrow> ResponseWriter \<Rightarrow> ResponseWriter" where
  "Write p rw = (let rw = WriteHeader StatusOK rw in rw\<lparr>Written := Written rw @ p\<rparr>)"

text \<open>\<^verbatim>\<open>http.Error(w, error, code)\<close>: a plain-text reply with the given status, the
  text and a line feed.\<close>

definition Error :: "ResponseWriter \<Rightarrow> string \<Rightarrow> nat \<Rightarrow> ResponseWriter" where
  "Error rw err code =
     (let rw = Header_Set ''Content-Type'' ''text/plain; charset=utf-8'' rw;
          rw = Header_Set ''X-Content-Type-Options'' ''nosniff'' rw;
          rw = WriteHeader code rw
      in Write (bytes_of (err @ [CHR 0x0A])) rw)"

section \<open>Resolver Transport\<close>

text \<open>
  \<^verbatim>\<open>startConnection\<close>: a new \<^verbatim>\<open>dns.Conn\<close> is allocated and stored in the server's
  field, then \<^verbatim>\<open>net.DialTimeout("tcp", nameserver, timeout * time.Millisecond)\<close> is
  called and its connection (nil on failure) stored in the new object.
\<close>

definition startConnection ::
  "upstream \<Rightarrow> string \<Rightarrow> Duration \<Rightarrow> odohServer \<Rightarrow> world \<Rightarrow> error option \<times> odohServer \<times> world" where
  "startConnection up ns tmo s w =
     (let a = length (heap w);
          w = w\<lparr>heap := heap w @ [\<lparr>Conn = None\<rparr>]\<rparr>;
          s = s\<lparr>connection := Some a\<rparr>;
          w = emit (EvDialTimeout ''tcp'' ns (tmo * Millisecond)) w
      in case DialTimeout up ns (tmo * Millisecond) of
           Some err \<Rightarrow> (Some (Errorf ''Failed starting resolver connection''), s, w)
         | None \<Rightarrow>
             (let h = length (socks w);
                  w = w\<lparr>socks := socks w @ [True]\<rparr>;
                  w = w\<lparr>heap := (heap w)[a := \<lparr>Conn = Some h\<rparr>]\<rparr>
              in (None, s, w)))"

text \<open>The TCP connection behind \<^verbatim>\<open>s.connection\<close>: \<open>None\<close> when the pointer or the
  embedded connection is nil, where a method call panics.\<close>

definition connOf :: "odohServer \<Rightarrow> world \<Rightarrow> nat option" where
  "connOf s w =
     (case connection s of
        None \<Rightarrow> None
      | Some a \<Rightarrow> if a < length (heap w) then Conn (heap w ! a) else None)"

text \<open>
  \<^verbatim>\<open>resolve\<close>. Each \<^verbatim>\<open>return nil, err\<close> of the source is guarded by
  \<^verbatim>\<open>err != nil\<close>, so the result is either an error or a response.
\<close>

definition resolve ::
  "upstream \<Rightarrow> odohServer \<Rightarrow> world \<Rightarrow> Msg \<Rightarrow> (error + Msg) \<times> odohServer \<times> world" where
  "resolve up s w msg =
     (case startConnection up (nameserver s) (timeout s) s w of
        (Some err, s, w) \<Rightarrow> (Inl err, s, w)
      | (None, s, w) \<Rightarrow>
          (case connOf s w of
             None \<Rightarrow> (Inl NilPointerPanic, s, w)
           | Some h \<Rightarrow>
               (let w = emit (EvSetReadDeadline h (timeout s * Millisecond)) w;
                    w = emit (EvSetWriteDeadline h (timeout s * Millisecond)) w;
                    w = emit (EvWriteMsg h msg) w
                in case WriteMsg up msg of
                     Some err \<Rightarrow> (Inl err, s, w)
                   | None \<Rightarrow>
                       (let w = emit (EvReadMsg h) w
                        in case ReadMsg up msg of
                             Inl err \<Rightarrow> (Inl err, s, w)
                           | Inr response \<Rightarrow> (Inr response, s, w)))))"

section \<open>Request Decoder\<close>

text \<open>
  The decoders return Go's four results: name, type, id and an error that is nil
  (\<open>None\<close>) on success. The variable \<open>err\<close> of \<^verbatim>\<open>parseRequestFromGET\<close> is the one
  assigned by \<^verbatim>\<open>DecodeString\<close>; the error of \<^verbatim>\<open>msg.Unpack\<close> is a variable of its own,
  local to the \<^verbatim>\<open>if\<close> statement that declares it (\<open>uerr\<close> here). The return under
  \<^verbatim>\<open>len(msg.Question) != 1\<close> names \<open>err\<close>.
\<close>

type_synonym parsed = "string \<times> string \<times> uint16 \<times> error option"

definition parseRequestFromGET :: "dnslib \<Rightarrow> odohServer \<Rightarrow> Request \<Rightarrow> world \<Rightarrow> parsed \<times> world" where
  "parseRequestFromGET lib s r w =
     (let encoded = URL_Query_dns r
      in if encoded = [] then
           (([], [], 0, Some (Errorf ''Missing DNS query parameter in GET request'')), w)
         else
           (let (decoded, err) = DecodeString encoded
            in if err \<noteq> None then (([], [], 0, err), w)
               else
                 (case Unpack lib decoded of
                    Inl uerr \<Rightarrow> (([], [], 0, Some uerr), w)
                  | Inr msg \<Rightarrow>
                      if length (Question msg) \<noteq> 1 then (([], [], 0, err), w)
                      else ((Name (Question msg ! 0),
                             TypeString lib (Qtype (Question msg ! 0)),
                             Id_msg msg, None), w))))"

text \<open>
  \<^verbatim>\<open>parseRequestFromPOST\<close>. The body is read only after the content type has been
  accepted, and the deferred \<^verbatim>\<open>r.Body.Close()\<close> runs at each return after that point.
  Here \<open>err\<close> is the variable assigned by \<^verbatim>\<open>ioutil.ReadAll\<close>.
\<close>

definition parseRequestFromPOST :: "dnslib \<Rightarrow> odohServer \<Rightarrow> Request \<Rightarrow> world \<Rightarrow> parsed \<times> world" where
  "parseRequestFromPOST lib s r w =
     (if Header_Content_Type r \<noteq> ''application/dns-message'' then
        (([], [], 0, Some (Errorf
           (''incorrect content type, expected 'application/dns-message', got '' @
            Header_Content_Type r))), w)
      else
        (let w = emit EvReadBody w;
             (body, err) = Body_ReadAll r
         in if err \<noteq> None then (([], [], 0, err), emit EvCloseBody w)
            else
              (case Unpack lib body of
                 Inl uerr \<Rightarrow> (([], [], 0, Some uerr), emit EvCloseBody w)
               | Inr msg \<Rightarrow>
                   if length (Question msg) \<noteq> 1 then (([], [], 0, err), emit EvCloseBody w)
                   else
                     (let w = (if verbose s then logPrint (LogUnpacked (Method r) msg) w else w)
                      in ((Name (Question msg ! 0),
                           TypeString lib (Qtype (Question msg ! 0)),
                           Id_msg msg, None), emit EvCloseBody w)))))"

definition parseRequest :: "dnslib \<Rightarrow> odohServer \<Rightarrow> Request \<Rightarrow> world \<Rightarrow> parsed \<times> world" where
  "parseRequest lib s r w =
     (if Method r = ''GET'' then parseRequestFromGET lib s r w
      else if Method r = ''POST'' then parseRequestFromPOST lib s r w
      else (([], [], 0, Some (Errorf ''unsupported HTTP method'')), w))"

section \<open>Handler and Response Encoder\<close>

text \<open>\<^verbatim>\<open>queryHandler\<close>: the receiver is a pointer, so the server value is passed in and
  returned, beside the response writer and the world.\<close>

definition queryHandler ::
  "dnslib \<Rightarrow> upstream \<Rightarrow> Request \<Rightarrow> odohServer \<Rightarrow> world \<Rightarrow> ResponseWriter
     \<Rightarrow> ResponseWriter \<times> odohServer \<times> world" where
  "queryHandler lib up r s w rw =
     (let w = logPrint LogHandling w;
          ((n, t, id, err), w) = parseRequest lib s r w
      in if err \<noteq> None then
           (let w = logPrint (LogFailedParsing err) w
            in (Error rw (StatusText StatusBadRequest) StatusBadRequest, s, w))
         else
           (let w = (if verbose s then logPrint (LogResolving (Method r) n t id) w else w);
                query = createQuery (Fqdn lib) (Id_gen up) n t
            in case resolve up s w query of
                 (Inl err, s, w) \<Rightarrow>
                   (let w = logPrint (LogQueryFailed err) w
                    in (Error rw (StatusText StatusInternalServerError)
                          StatusInternalServerError, s, w))
               | (Inr response, s, w) \<Rightarrow>
                   (case Pack lib response of
                      Inl err \<Rightarrow>
                        (let w = logPrint (LogFailedPacking err) w
                         in (Error rw (StatusText StatusInternalServerError)
                               StatusInternalServerError, s, w))
                    | Inr packed \<Rightarrow>
                        (let w = (if verbose s then
                                    logPrint (LogRawResponse (Method r) packed)
                                      (logPrint (LogFullResponse (Method r) packed)
                                        (logPrint (LogAnswer (Method r) (Answer response))
                                          (logPrint (LogQuery (Method r) n t id) w)))
                                  else w);
                             rw = Header_Set ''Content-Type'' ''application/dns-message'' rw
                         in (Write packed rw, s, w)))))"

text \<open>The server value that \<^verbatim>\<open>main\<close> builds, and the world before any request.\<close>

definition mainServer :: odohServer where
  "mainServer = \<lparr>verbose = True, nameserver = ''1.1.1.1:53'',
     timeout = 2500 * Millisecond, connection = None\<rparr>"

definition initialWorld :: world where
  "initialWorld = \<lparr>heap = [], socks = [], trace = [], logs = []\<rparr>"

section \<open>Observations\<close>

text \<open>The error among the four results of a decoder; the results of the decode stage
  and of the transport stage on their own (neither depends on the events and log lines
  collected so far); and whether a TCP connection is open.\<close>

definition errOf :: "parsed \<Rightarrow> error option" where
  "errOf p = snd (snd (snd p))"

definition decoded :: "dnslib \<Rightarrow> odohServer \<Rightarrow> Request \<Rightarrow> parsed" where
  "decoded lib s r = fst (parseRequest lib s r initialWorld)"

definition resolved :: "upstream \<Rightarrow> odohServer \<Rightarrow> Msg \<Rightarrow> error + Msg" where
  "resolved up s msg = fst (resolve up s initialWorld msg)"

definition isOpen :: "nat \<Rightarrow> world \<Rightarrow> bool" where
  "isOpen h w = (h < length (socks w) \<and> socks w ! h)"

section \<open>An instance of the library and of the resolver\<close>

text \<open>
  The theorems below hold for every library and every resolver. To run the model on
  concrete requests, the parameters are instantiated here with the wire format of
  RFC 1035 for messages whose names are not compressed and have plain characters: the
  12-byte header, the questions, and the resource records with their data as raw bytes.
\<close>

definition be16 :: "byte \<Rightarrow> byte \<Rightarrow> uint16" where
  "be16 hi lo = word_of_nat (unat hi * 256 + unat lo)"

definition hi8 :: "uint16 \<Rightarrow> byte" where
  "hi8 x = word_of_nat (unat x div 256)"

definition lo8 :: "uint16 \<Rightarrow> byte" where
  "lo8 x = word_of_nat (unat x)"

text \<open>Labels of a name; the first argument counts the characters left in the current
  label. A length byte above 63 (a compression pointer) is not accepted.\<close>

fun unpackLabels :: "nat \<Rightarrow> byte list \<Rightarrow> (string \<times> byte list) option" where
  "unpackLabels k [] = None"
| "unpackLabels 0 (b # bs) =
     (if b = 0 then Some ([], bs)
      else if 63 < unat b then None
      else unpackLabels (unat b) bs)"
| "unpackLabels (Suc k) (b # bs) =
     (case unpackLabels k bs of
        None \<Rightarrow> None
      | Some (nm, rest) \<Rightarrow>
          Some (char_of (unat b) # (if k = 0 then CHR ''.'' # nm else nm), rest))"

definition unpackName :: "byte list \<Rightarrow> (string \<times> byte list) option" where
  "unpackName bs =
     (case unpackLabels 0 bs of
        None \<Rightarrow> None
      | Some (nm, rest) \<Rightarrow> Some (if nm = [] then ''.'' else nm, rest))"

fun unpackQuestions :: "nat \<Rightarrow> byte list \<Rightarrow> (Question list \<times> byte list) option" where
  "unpackQuestions 0 bs = Some ([], bs)"
| "unpackQuestions (Suc k) bs =
     (case unpackName bs of
        None \<Rightarrow> None
      | Some (nm, rest) \<Rightarrow>
          if length rest < 4 then None
          else (case unpackQuestions k (drop 4 rest) of
                  None \<Rightarrow> None
                | Some (qs, rest') \<Rightarrow>
                    Some (\<lparr>Name = nm, Qtype = be16 (rest ! 0) (rest ! 1),
                            Qclass = be16 (rest ! 2) (rest ! 3)\<rparr> # qs, rest')))"

fun unpackRRs :: "nat \<Rightarrow> byte list \<Rightarrow> (RR list \<times> byte list) option" where
  "unpackRRs 0 bs = Some ([], bs)"
| "unpackRRs (Suc k) bs =
     (case unpackName bs of
        None \<Rightarrow> None
      | Some (nm, rest) \<Rightarrow>
          if length rest < 10 then None
          else
            (let rdlength = unat (be16 (rest ! 8) (rest ! 9))
             in if length rest < 10 + rdlength then None
                else (case unpackRRs k (drop (10 + rdlength) rest) of
                        None \<Rightarrow> None
                      | Some (rrs, rest') \<Rightarrow>
                          Some (\<lparr>RRName = nm, Rrtype = be16 (rest ! 0) (rest ! 1),
                                  Class = be16 (rest ! 2) (rest ! 3),
                                  Ttl = word_of_nat (unat (be16 (rest ! 4) (rest ! 5)) * 65536 +
                                                     unat (be16 (rest ! 6) (rest ! 7))),
                                  Rdata = take rdlength (drop 10 rest)\<rparr> # rrs, rest'))))"

text \<open>The header: id, the flag bytes and the four counts. A message that ends after
  the header unpacks to the header alone, with empty sections.\<close>

definition unpackHeader :: "byte list \<Rightarrow> Msg" where
  "unpackHeader bs =
     zeroMsg\<lparr>Id_msg := be16 (bs ! 0) (bs ! 1),
       Response := bit (bs ! 2) 7,
       Opcode := int (unat (bs ! 2) div 8 mod 16),
       Authoritative := bit (bs ! 2) 2,
       Truncated := bit (bs ! 2) 1,
       RecursionDesired := bit (bs ! 2) 0,
       RecursionAvailable := bit (bs ! 3) 7,
       Zero := bit (bs ! 3) 6,
       AuthenticatedData := bit (bs ! 3) 5,
       CheckingDisabled := bit (bs ! 3) 4,
       Rcode := int (unat (bs ! 3) mod 16)\<rparr>"

definition wireUnpack :: "byte list \<Rightarrow> error + Msg" where
  "wireUnpack bs =
     (if length bs < 12 then Inl (LibError ''dns: overflow unpacking uint16'')
      else if length bs = 12 then Inr (unpackHeader bs)
      else
        (case unpackQuestions (unat (be16 (bs ! 4) (bs ! 5))) (drop 12 bs) of
           None \<Rightarrow> Inl (LibError ''dns: bad question'')
         | Some (qs, r1) \<Rightarrow>
        (case unpackRRs (unat (be16 (bs ! 6) (bs ! 7))) r1 of
           None \<Rightarrow> Inl (LibError ''dns: bad answer'')
         | Some (an, r2) \<Rightarrow>
        (case unpackRRs (unat (be16 (bs ! 8) (bs ! 9))) r2 of
           None \<Rightarrow> Inl (LibError ''dns: bad authority'')
         | Some (ns, r3) \<Rightarrow>
        (case unpackRRs (unat (be16 (bs ! 10) (bs ! 11))) r3 of
           None \<Rightarrow> Inl (LibError ''dns: bad additional'')
         | Some (ex, r4) \<Rightarrow>
             Inr ((unpackHeader bs)\<lparr>Question := qs, Answer := an, Ns := ns, Extra := ex\<rparr>))))))"

text \<open>Packing. A name must end with a dot; each label is at most 63 characters.\<close>

fun packLabels :: "string \<Rightarrow> string \<Rightarrow> byte list option" where
  "packLabels lab [] = (if lab = [] then Some [0] else None)"
| "packLabels lab (c # cs) =
     (if c = CHR ''.'' then
        (if lab = [] \<or> 63 < length lab then None
         else (case packLabels [] cs of
                 None \<Rightarrow> None
               | Some bs \<Rightarrow> Some (word_of_nat (length lab) # bytes_of lab @ bs)))
      else packLabels (lab @ [c]) cs)"

definition packName :: "string \<Rightarrow> byte list option" where
  "packName nm = (if nm = ''.'' then Some [0] else if nm = [] then None else packLabels [] nm)"

fun packQuestions :: "Question list \<Rightarrow> byte list option" where
  "packQuestions [] = Some []"
| "packQuestions (q # qs) =
     (case packName (Name q) of
        None \<Rightarrow> None
      | Some nb \<Rightarrow>
          (case packQuestions qs of
             None \<Rightarrow> None
           | Some bs \<Rightarrow>
               Some (nb @ [hi8 (Qtype q), lo8 (Qtype q), hi8 (Qclass q), lo8 (Qclass q)] @ bs)))"

fun packRRs :: "RR list \<Rightarrow> byte list option" where
  "packRRs [] = Some []"
| "packRRs (rr # rrs) =
     (case packName (RRName rr) of
        None \<Rightarrow> None
      | Some nb \<Rightarrow>
          if 65535 < length (Rdata rr) then None
          else (case packRRs rrs of
                  None \<Rightarrow> None
                | Some bs \<Rightarrow>
                    Some (nb @ [hi8 (Rrtype rr), lo8 (Rrtype rr), hi8 (Class rr), lo8 (Class rr),
                                word_of_nat (unat (Ttl rr) div 16777216),
                                word_of_nat (unat (Ttl rr) div 65536),
                                word_of_nat (unat (Ttl rr) div 256),
                                word_of_nat (unat (Ttl rr)),
                                word_of_nat (length (Rdata rr) div 256),
                                word_of_nat (length (Rdata rr))] @ Rdata rr @ bs)))"

definition flagBit :: "bool \<Rightarrow> nat \<Rightarrow> nat" where
  "flagBit b k = (if b then k else 0)"

definition packHeader :: "Msg \<Rightarrow> byte list" where
  "packHeader m =
     [hi8 (Id_msg m), lo8 (Id_msg m),
      word_of_nat (flagBit (Response m) 128 + nat (Opcode m) mod 16 * 8 +
                   flagBit (Authoritative m) 4 + flagBit (Truncated m) 2 +
                   flagBit (RecursionDesired m) 1),
      word_of_nat (flagBit (RecursionAvailable m) 128 + flagBit (Zero m) 64 +
                   flagBit (AuthenticatedData m) 32 + flagBit (CheckingDisabled m) 16 +
                   nat (Rcode m) mod 16),
      word_of_nat (length (Question m) div 256), word_of_nat (length (Question m)),
      word_of_nat (length (Answer m) div 256), word_of_nat (length (Answer m)),
      word_of_nat (length (Ns m) div 256), word_of_nat (length (Ns m)),
      word_of_nat (length (Extra m) div 256), word_of_nat (length (Extra m))]"

definition wirePack :: "Msg \<Rightarrow> error + byte list" where
  "wirePack m =
     (case packQuestions (Question m) of
        None \<Rightarrow> Inl (LibError ''dns: domain must be fully qualified'')
      | Some qb \<Rightarrow>
     (case packRRs (Answer m) of
        None \<Rightarrow> Inl (LibError ''dns: bad rdata'')
      | Some ab \<Rightarrow>
     (case packRRs (Ns m) of
        None \<Rightarrow> Inl (LibError ''dns: bad rdata'')
      | Some nb \<Rightarrow>
     (case packRRs (Extra m) of
        None \<Rightarrow> Inl (LibError ''dns: bad rdata'')
      | Some eb \<Rightarrow> Inr (packHeader m @ qb @ ab @ nb @ eb)))))"

text \<open>Names of the common record types (any other type prints as \<^verbatim>\<open>TYPE\<close> followed
  by its number), and the fully-qualified form of a name.\<close>

definition decimal :: "nat \<Rightarrow> string" where
  "decimal k =
     (let ds = dropWhile (\<lambda>c. c = CHR ''0'')
                 (map (\<lambda>p. char_of (48 + k div p mod 10)) [10000, 1000, 100, 10, 1])
      in if ds = [] then ''0'' else ds)"

definition wireTypeString :: "uint16 \<Rightarrow> string" where
  "wireTypeString ty =
     (if ty = 1 then ''A'' else if ty = 2 then ''NS'' else if ty = 5 then ''CNAME''
      else if ty = 6 then ''SOA'' else if ty = 15 then ''MX'' else if ty = 16 then ''TXT''
      else if ty = 28 then ''AAAA'' else ''TYPE'' @ decimal (unat ty))"

definition wireFqdn :: "string \<Rightarrow> string" where
  "wireFqdn nm = (if nm \<noteq> [] \<and> last nm = CHR ''.'' then nm else nm @ ''.'')"

definition wireLib :: dnslib where
  "wireLib = \<lparr>Unpack = wireUnpack, Pack = wirePack, TypeString = wireTypeString, Fqdn = wireFqdn\<rparr>"

text \<open>A resolver that accepts every connection and answers a query with the query
  turned into a response carrying one address record for the name asked; and a resolver
  that cannot be reached.\<close>

definition answerTo :: "Msg \<Rightarrow> Msg" where
  "answerTo q =
     q\<lparr>Response := True, RecursionAvailable := True,
       Answer := map (\<lambda>x. \<lparr>RRName = Name x, Rrtype = Qtype x, Class = Qclass x, Ttl = 300,
                            Rdata = [93, 184, 216, 34]\<rparr>) (Question q)\<rparr>"

definition goodUpstream :: upstream where
  "goodUpstream = \<lparr>DialTimeout = (\<lambda>addr d. None), WriteMsg = (\<lambda>q. None),
     ReadMsg = (\<lambda>q. Inr (answerTo q)), Id_gen = 4660\<rparr>"

definition deadUpstream :: upstream where
  "deadUpstream = \<lparr>DialTimeout = (\<lambda>addr d. Some (LibError ''dial tcp: i/o timeout'')),
     WriteMsg = (\<lambda>q. None), ReadMsg = (\<lambda>q. Inr (answerTo q)), Id_gen = 4660\<rparr>"

text \<open>A resolver whose answer says that the name does not exist (response code 3, no
  records), and one whose answer has response code 0 and no records.\<close>

definition nxUpstream :: upstream where
  "nxUpstream = \<lparr>DialTimeout = (\<lambda>addr d. None), WriteMsg = (\<lambda>q. None),
     ReadMsg = (\<lambda>q. Inr (q\<lparr>Response := True, RecursionAvailable := True, Rcode := 3\<rparr>)),
     Id_gen = 4660\<rparr>"

definition nodataUpstream :: upstream where
  "nodataUpstream = \<lparr>DialTimeout = (\<lambda>addr d. None), WriteMsg = (\<lambda>q. None),
     ReadMsg = (\<lambda>q. Inr (q\<lparr>Response := True, RecursionAvailable := True\<rparr>)),
     Id_gen = 4660\<rparr>"

text \<open>Sample requests. \<open>queryExample\<close> is the query for the A record of
  \<^verbatim>\<open>example.com.\<close> with id \<^verbatim>\<open>0xABCD\<close>; \<open>headerOnly\<close> is a 12-byte message with no
  question; \<open>twoQuestions\<close> asks for A and AAAA of \<^verbatim>\<open>a.\<close> in one message.\<close>

definition queryExample :: "byte list" where
  "queryExample = [0xAB, 0xCD, 1, 0, 0, 1, 0, 0, 0, 0, 0, 0,
     7, 0x65, 0x78, 0x61, 0x6D, 0x70, 0x6C, 0x65, 3, 0x63, 0x6F, 0x6D, 0, 0, 1, 0, 1]"

definition exampleMsg :: Msg where
  "exampleMsg = zeroMsg\<lparr>Id_msg := 0xABCD, RecursionDesired := True,
     Question := [\<lparr>Name = ''example.com.'', Qtype = TypeA, Qclass = ClassINET\<rparr>]\<rparr>"

definition headerOnly :: "byte list" where
  "headerOnly = [0, 0, 1, 0, 0, 0, 0, 0, 0, 0, 0, 0]"

definition twoQuestions :: "byte list" where
  "twoQuestions = [0, 7, 1, 0, 0, 2, 0, 0, 0, 0, 0, 0,
     1, 0x61, 0, 0, 1, 0, 1, 1, 0x61, 0, 0, 28, 0, 1]"

definition twoQuestionsMsg :: Msg where
  "twoQuestionsMsg = zeroMsg\<lparr>Id_msg := 7, RecursionDesired := True,
     Question := [\<lparr>Name = ''a.'', Qtype = TypeA, Qclass = ClassINET\<rparr>,
                  \<lparr>Name = ''a.'', Qtype = TypeAAAA, Qclass = ClassINET\<rparr>]\<rparr>"

definition getRequest :: "byte list \<Rightarrow> Request" where
  "getRequest bs = \<lparr>Method = ''GET'', URL_Query_dns = EncodeToString bs,
     Header_Content_Type = [], Body_ReadAll = ([], None)\<rparr>"

definition getWithParam :: "string \<Rightarrow> Request" where
  "getWithParam p = \<lparr>Method = ''GET'', URL_Query_dns = p,
     Header_Content_Type = [], Body_ReadAll = ([], None)\<rparr>"

definition postRequest :: "string \<Rightarrow> byte list \<Rightarrow> Request" where
  "postRequest ct bs = \<lparr>Method = ''POST'', URL_Query_dns = [],
     Header_Content_Type = ct, Body_ReadAll = (bs, None)\<rparr>"

section \<open>Base64: decoding what was encoded\<close>

lemma index_of_nth: "distinct xs \<Longrightarrow> k < length xs \<Longrightarrow> index_of (xs ! k) xs = Some k"
proof (induction xs arbitrary: k)
  case Nil
  then show ?case by simp
next
  case (Cons x xs)
  show ?case
  proof (cases k)
    case 0
    then show ?thesis by simp
  next
    case (Suc j)
    with Cons.prems have "xs ! j \<in> set xs" by simp
    with Cons.prems have "x \<noteq> xs ! j" by auto
    with Cons Suc show ?thesis by simp
  qed
qed

lemma length_encodeURL: "length encodeURL = 64"
  by (simp add: encodeURL_def)

lemma distinct_encodeURL: "distinct encodeURL"
  by (simp add: encodeURL_def)

lemma decodeMap_enc6: "decodeMap (enc6 v) = Some (v mod 64)"
  unfolding decodeMap_def enc6_def
  by (rule index_of_nth [OF distinct_encodeURL]) (simp add: length_encodeURL)

lemma enc6_in_alphabet: "enc6 v \<in> set encodeURL"
  unfolding enc6_def by (rule nth_mem) (simp add: length_encodeURL)

lemma enc6_not_newline: "enc6 v \<noteq> CHR 0x0A" "enc6 v \<noteq> CHR 0x0D"
proof -
  have "CHR 0x0A \<notin> set encodeURL" "CHR 0x0D \<notin> set encodeURL"
    by (simp_all add: encodeURL_def)
  with enc6_in_alphabet [of v] show "enc6 v \<noteq> CHR 0x0A" "enc6 v \<noteq> CHR 0x0D"
    by auto
qed

text \<open>A 24-bit value is the sum of its four 6-bit digits.\<close>

lemma quantum_val:
  fixes val :: nat
  assumes "val < 16777216"
  shows "val div 262144 mod 64 * 262144 + val div 4096 mod 64 * 4096
           + val div 64 mod 64 * 64 + val mod 64 = val"
proof -
  define q1 where "q1 = val div 64"
  define q2 where "q2 = q1 div 64"
  define q3 where "q3 = q2 div 64"
  have d1: "val div 4096 = q2" by (simp add: q1_def q2_def div_mult2_eq)
  have d2: "val div 262144 = q3" by (simp add: q1_def q2_def q3_def div_mult2_eq)
  have "val div 262144 < 64" using assms by (simp add: less_mult_imp_div_less)
  then have m: "q3 mod 64 = q3" using d2 by simp
  have e1: "val = q1 * 64 + val mod 64" by (simp add: q1_def)
  have e2: "q1 = q2 * 64 + q1 mod 64" by (simp add: q2_def)
  have e3: "q2 = q3 * 64 + q2 mod 64" by (simp add: q3_def)
  have "q3 * 262144 + q2 mod 64 * 4096 + q1 mod 64 * 64 + val mod 64
          = ((q3 * 64 + q2 mod 64) * 64 + q1 mod 64) * 64 + val mod 64"
    by (simp add: algebra_simps)
  also have "\<dots> = (q2 * 64 + q1 mod 64) * 64 + val mod 64" using e3 by simp
  also have "\<dots> = q1 * 64 + val mod 64" using e2 by simp
  also have "\<dots> = val" using e1 by simp
  finally show ?thesis unfolding d1 d2 m q1_def [symmetric] .
qed

lemma bytes3:
  fixes a b c :: nat
  assumes "a < 256" "b < 256" "c < 256"
  shows "(a * 65536 + b * 256 + c) div 65536 = a"
    and "(a * 65536 + b * 256 + c) div 256 = a * 256 + b"
    and "a * 65536 + b * 256 + c < 16777216"
  using assms by simp_all

lemma unat_byte_less: "unat (b :: byte) < 256"
  using unsigned_less [of b, where ?'a = nat] by simp

lemma byte_of_unat: "(word_of_nat (unat (b :: byte)) :: byte) = b"
  by simp

lemma byte_of_shifted: "(word_of_nat (a * 256 + b) :: byte) = word_of_nat b"
proof -
  have "(word_of_nat (a * 256 + b) :: byte) = word_of_nat a * 256 + word_of_nat b"
    by simp
  also have "(256 :: byte) = 0" by simp
  finally show ?thesis by simp
qed

lemma byte_of_shifted2: "(word_of_nat (a * 65536 + b * 256 + c) :: byte) = word_of_nat c"
proof -
  have "a * 65536 + b * 256 + c = (a * 256 + b) * 256 + c" by simp
  then show ?thesis by (simp only: byte_of_shifted)
qed

lemma quantum_bytes:
  fixes b0 b1 b2 :: byte
  assumes val: "val = unat b0 * 65536 + unat b1 * 256 + unat b2"
  shows "val div 262144 mod 64 * 262144 + val div 4096 mod 64 * 4096
           + val div 64 mod 64 * 64 + val mod 64 = val"
    and "(word_of_nat (val div 65536) :: byte) = b0"
    and "(word_of_nat (val div 256) :: byte) = b1"
    and "(word_of_nat val :: byte) = b2"
proof -
  note lt = unat_byte_less [of b0] unat_byte_less [of b1] unat_byte_less [of b2]
  show "val div 262144 mod 64 * 262144 + val div 4096 mod 64 * 4096
           + val div 64 mod 64 * 64 + val mod 64 = val"
    by (rule quantum_val) (simp only: val bytes3(3) [OF lt])
  show "(word_of_nat (val div 65536) :: byte) = b0"
    by (simp only: val bytes3(1) [OF lt] byte_of_unat)
  show "(word_of_nat (val div 256) :: byte) = b1"
    by (simp only: val bytes3(2) [OF lt] byte_of_shifted byte_of_unat)
  show "(word_of_nat val :: byte) = b2"
    by (simp only: val byte_of_shifted2 byte_of_unat)
qed

lemma decodeQuanta_full:
  fixes b0 b1 b2 :: byte
  assumes val: "val = unat b0 * 65536 + unat b1 * 256 + unat b2"
    and vs: "decodeQuanta vs = Inr src"
  shows "decodeQuanta (val div 262144 mod 64 # val div 4096 mod 64 # val div 64 mod 64 #
           val mod 64 # vs) = Inr (b0 # b1 # b2 # src)"
  by (simp only: decodeQuanta.simps Let_def quantum_bytes [OF val] vs sum.case)

lemma decodeQuanta_two:
  fixes b0 b1 :: byte
  assumes val: "val = unat b0 * 65536 + unat b1 * 256"
  shows "decodeQuanta [val div 262144 mod 64, val div 4096 mod 64, val div 64 mod 64]
           = Inr [b0, b1]"
proof -
  have v: "val = unat b0 * 65536 + unat b1 * 256 + unat (0 :: byte)" by (simp add: val)
  have z: "val mod 64 = 0" by (simp add: val)
  have "val div 262144 mod 64 * 262144 + val div 4096 mod 64 * 4096 + val div 64 mod 64 * 64
          = val"
    using quantum_bytes(1) [OF v] by (simp only: z add_0_right)
  then show ?thesis
    by (simp only: decodeQuanta.simps Let_def quantum_bytes(2,3) [OF v])
qed

lemma decodeQuanta_one:
  fixes b0 :: byte
  assumes val: "val = unat b0 * 65536"
  shows "decodeQuanta [val div 262144 mod 64, val div 4096 mod 64] = Inr [b0]"
proof -
  have v: "val = unat b0 * 65536 + unat (0 :: byte) * 256 + unat (0 :: byte)"
    by (simp add: val)
  have z: "val mod 64 = 0" "val div 64 mod 64 = 0" by (simp_all add: val)
  have "val div 262144 mod 64 * 262144 + val div 4096 mod 64 * 4096 = val"
    using quantum_bytes(1) [OF v] by (simp only: z add_0_right mult_zero_left)
  then show ?thesis
    by (simp only: decodeQuanta.simps Let_def quantum_bytes(2) [OF v])
qed

lemma filter_EncodeToString:
  "filter (\<lambda>c. c \<noteq> CHR 0x0A \<and> c \<noteq> CHR 0x0D) (EncodeToString bs) = EncodeToString bs"
  by (induction bs rule: EncodeToString.induct) (simp_all add: Let_def enc6_not_newline)

lemma those_decode_EncodeToString:
  "\<exists>vs. those (map decodeMap (EncodeToString bs)) = Some vs \<and> decodeQuanta vs = Inr bs"
proof (induction bs rule: EncodeToString.induct)
  case (1 b0 b1 b2 src)
  then obtain vs where vs: "those (map decodeMap (EncodeToString src)) = Some vs"
    "decodeQuanta vs = Inr src" by blast
  show ?case
    using vs(1) decodeQuanta_full [OF refl vs(2), of b0 b1 b2]
    by (simp add: Let_def decodeMap_enc6 del: decodeQuanta.simps)
next
  case (2 b0 b1)
  show ?case using decodeQuanta_two [OF refl, of b0 b1]
    by (simp add: Let_def decodeMap_enc6 del: decodeQuanta.simps)
next
  case (3 b0)
  show ?case using decodeQuanta_one [OF refl, of b0]
    by (simp add: Let_def decodeMap_enc6 del: decodeQuanta.simps)
next
  case 4
  show ?case by simp
qed

lemma decodeBytes_EncodeToString: "decodeBytes (EncodeToString bs) = Inr bs"
  using those_decode_EncodeToString [of bs]
  by (auto simp: decodeBytes_def filter_EncodeToString)

lemma DecodeString_EncodeToString: "DecodeString (EncodeToString bs) = (bs, None)"
  by (simp add: DecodeString_def decodeBytes_EncodeToString)

lemma EncodeToString_empty: "(EncodeToString bs = []) = (bs = [])"
  by (induction bs rule: EncodeToString.induct) (simp_all add: Let_def)

section \<open>The library instance on the sample messages\<close>

lemma unpackLabels_Cons:
  "unpackLabels k (b # bs) =
     (if k = 0 then (if b = 0 then Some ([], bs) else if 63 < unat b then None
                     else unpackLabels (unat b) bs)
      else (case unpackLabels (k - 1) bs of None \<Rightarrow> None
            | Some (nm, rest) \<Rightarrow>
                Some (char_of (unat b) # (if k - 1 = 0 then CHR ''.'' # nm else nm), rest)))"
  by (cases k) (auto split: option.splits)

lemma unpackQuestions_unfold:
  "unpackQuestions k bs =
     (if k = 0 then Some ([], bs)
      else (case unpackName bs of None \<Rightarrow> None
            | Some (nm, rest) \<Rightarrow>
                if length rest < 4 then None
                else (case unpackQuestions (k - 1) (drop 4 rest) of None \<Rightarrow> None
                      | Some (qs, rest') \<Rightarrow>
                          Some (\<lparr>Name = nm, Qtype = be16 (rest ! 0) (rest ! 1),
                                  Qclass = be16 (rest ! 2) (rest ! 3)\<rparr> # qs, rest'))))"
  by (cases k) (auto split: option.splits)

lemma wireUnpack_queryExample: "wireUnpack queryExample = Inr exampleMsg"
  by (simp add: wireUnpack_def queryExample_def exampleMsg_def unpackHeader_def be16_def
      zeroMsg_def unpackName_def unpackLabels_Cons unpackQuestions_unfold char_of_eq_iff
      TypeA_def ClassINET_def del: unpackLabels.simps unpackQuestions.simps)

lemma wireUnpack_headerOnly:
  "wireUnpack headerOnly = Inr (zeroMsg\<lparr>RecursionDesired := True\<rparr>)"
  by (simp add: wireUnpack_def headerOnly_def unpackHeader_def be16_def zeroMsg_def)

lemma wireUnpack_twoQuestions: "wireUnpack twoQuestions = Inr twoQuestionsMsg"
  by (simp add: wireUnpack_def twoQuestions_def twoQuestionsMsg_def unpackHeader_def be16_def
      zeroMsg_def unpackName_def unpackLabels_Cons unpackQuestions_unfold char_of_eq_iff
      TypeA_def TypeAAAA_def ClassINET_def del: unpackLabels.simps unpackQuestions.simps)

lemma wirePack_exampleMsg: "wirePack exampleMsg = Inr queryExample"
  by (simp add: wirePack_def exampleMsg_def zeroMsg_def packName_def bytes_of_def packHeader_def
      hi8_def lo8_def flagBit_def TypeA_def ClassINET_def queryExample_def)

lemma queryExample_nonempty: "queryExample \<noteq> []"
  by (simp add: queryExample_def)

lemma headerOnly_nonempty: "headerOnly \<noteq> []"
  by (simp add: headerOnly_def)

section \<open>Properties of the Query Synthesizer\<close>

lemma createQuery_Question:
  "Question (createQuery fqdn rid n t) =
     [\<lparr>Name = fqdn n, Qtype = (if t = ''A'' then TypeA else TypeAAAA), Qclass = ClassINET\<rparr>]"
  by (simp add: createQuery_def Let_def)

text \<open>
  Claim C5. For every name \<open>n\<close> and type string \<open>t\<close>, the single question of
  \<open>createQuery n t\<close> has record type A exactly when \<open>t\<close> is the string "A", and record
  type AAAA for every other \<open>t\<close> (also for "AAAA" and for unrecognised types).
\<close>

theorem createQuery_qtype:
  "map Qtype (Question (createQuery fqdn rid n t)) = [if t = ''A'' then TypeA else TypeAAAA]
   \<and> (Qtype (hd (Question (createQuery fqdn rid n t))) = TypeA) = (t = ''A'')
   \<and> (Qtype (hd (Question (createQuery fqdn rid n t))) = TypeAAAA) = (t \<noteq> ''A'')"
  by (simp add: createQuery_Question TypeA_def TypeAAAA_def)

text \<open>
  Claim C6. \<open>createQuery\<close> is a total function without an error result. For every name
  \<open>n\<close> and type string \<open>t\<close> its message has opcode standard query, response code success,
  the recursion-desired flag set, the transaction id that the id generator has drawn for
  this call (the inbound message's id is not an argument of the function), and exactly
  one question, whose name is \<open>Fqdn n\<close> and whose class is Internet.
\<close>

theorem createQuery_message:
  "Opcode (createQuery fqdn rid n t) = OpcodeQuery
   \<and> Rcode (createQuery fqdn rid n t) = RcodeSuccess
   \<and> RecursionDesired (createQuery fqdn rid n t)
   \<and> Id_msg (createQuery fqdn rid n t) = rid
   \<and> length (Question (createQuery fqdn rid n t)) = 1
   \<and> map Name (Question (createQuery fqdn rid n t)) = [fqdn n]
   \<and> map Qclass (Question (createQuery fqdn rid n t)) = [ClassINET]"
  by (simp add: createQuery_Question) (simp add: createQuery_def Let_def)

section \<open>Properties of the Resolver Transport\<close>

lemma startConnection_failed:
  "DialTimeout up ns (tmo * Millisecond) = Some e \<Longrightarrow>
   startConnection up ns tmo s w =
     (Some (Errorf ''Failed starting resolver connection''),
      s\<lparr>connection := Some (length (heap w))\<rparr>,
      w\<lparr>heap := heap w @ [\<lparr>Conn = None\<rparr>],
        trace := trace w @ [EvDialTimeout ''tcp'' ns (tmo * Millisecond)]\<rparr>)"
  by (simp add: startConnection_def emit_def Let_def)

lemma startConnection_dialled:
  "DialTimeout up ns (tmo * Millisecond) = None \<Longrightarrow>
   startConnection up ns tmo s w =
     (None,
      s\<lparr>connection := Some (length (heap w))\<rparr>,
      w\<lparr>heap := heap w @ [\<lparr>Conn = Some (length (socks w))\<rparr>],
        socks := socks w @ [True],
        trace := trace w @ [EvDialTimeout ''tcp'' ns (tmo * Millisecond)]\<rparr>)"
  by (simp add: startConnection_def emit_def Let_def)

text \<open>The two ways through \<open>resolve\<close>: the dial fails, or the connection is
  established and the query is written (and, when the write succeeds, an answer read).
  The branch for a nil connection is never taken.\<close>

lemma resolve_failed:
  "DialTimeout up (nameserver s) (timeout s * Millisecond) = Some e \<Longrightarrow>
   resolve up s w msg =
     (Inl (Errorf ''Failed starting resolver connection''),
      s\<lparr>connection := Some (length (heap w))\<rparr>,
      w\<lparr>heap := heap w @ [\<lparr>Conn = None\<rparr>],
        trace := trace w @ [EvDialTimeout ''tcp'' (nameserver s) (timeout s * Millisecond)]\<rparr>)"
  by (simp add: resolve_def startConnection_failed)

lemma resolve_dialled:
  "DialTimeout up (nameserver s) (timeout s * Millisecond) = None \<Longrightarrow>
   resolve up s w msg =
     ((case WriteMsg up msg of Some err \<Rightarrow> Inl err | None \<Rightarrow> ReadMsg up msg),
      s\<lparr>connection := Some (length (heap w))\<rparr>,
      w\<lparr>heap := heap w @ [\<lparr>Conn = Some (length (socks w))\<rparr>],
        socks := socks w @ [True],
        trace := trace w @
          [EvDialTimeout ''tcp'' (nameserver s) (timeout s * Millisecond),
           EvSetReadDeadline (length (socks w)) (timeout s * Millisecond),
           EvSetWriteDeadline (length (socks w)) (timeout s * Millisecond),
           EvWriteMsg (length (socks w)) msg] @
          (if WriteMsg up msg = None then [EvReadMsg (length (socks w))] else [])\<rparr>)"
  by (simp add: resolve_def startConnection_dialled connOf_def emit_def Let_def
      split: option.splits sum.splits)

lemma resolve_fst: "fst (resolve up s w msg) = resolved up s msg"
  by (cases "DialTimeout up (nameserver s) (timeout s * Millisecond)")
     (simp_all add: resolved_def resolve_failed resolve_dialled)

lemma resolved_cases:
  "resolved up s msg =
     (case DialTimeout up (nameserver s) (timeout s * Millisecond) of
        Some e \<Rightarrow> Inl (Errorf ''Failed starting resolver connection'')
      | None \<Rightarrow> (case WriteMsg up msg of Some err \<Rightarrow> Inl err | None \<Rightarrow> ReadMsg up msg))"
  by (cases "DialTimeout up (nameserver s) (timeout s * Millisecond)")
     (simp_all add: resolved_def resolve_failed resolve_dialled)

lemma resolve_server:
  "fst (snd (resolve up s w msg)) = s\<lparr>connection := Some (length (heap w))\<rparr>"
  by (cases "DialTimeout up (nameserver s) (timeout s * Millisecond)")
     (simp_all add: resolve_failed resolve_dialled)

text \<open>The duration handed to the dial and to both deadlines is the configured timeout
  multiplied by \<open>1000000\<close> in 64-bit arithmetic. Since \<open>999999\<close> is odd, the product
  is the configured timeout itself only when that timeout is zero.\<close>

lemma Millisecond_fixpoint: "(t * Millisecond = t) = (t = 0)"
proof
  assume a: "t * Millisecond = t"
  have "t * (Millisecond - 1) = t * Millisecond - t" by (simp add: algebra_simps)
  with a have "t * (Millisecond - 1) = 0" by simp
  moreover have "Millisecond - 1 = 999999" by (simp add: Millisecond_def)
  ultimately have z: "t * 999999 = 0" by simp
  have inv: "(999999 :: Duration) * 1672254362768354751 = 1" by simp
  have "t = t * (999999 * 1672254362768354751)" by (simp only: inv mult_1_right)
  also have "\<dots> = t * 999999 * 1672254362768354751" by (simp only: mult.assoc)
  also have "\<dots> = 0" by (simp only: z mult_zero_left)
  finally show "t = 0" .
next
  assume "t = 0"
  then show "t * Millisecond = t" by simp
qed

text \<open>
  Claim C2 (the code departs from it). \<open>main\<close> configures a timeout of
  \<open>2500 * time.Millisecond\<close>, that is \<open>2500000000\<close> nanoseconds. With that server value
  the dial, whether it succeeds or fails, is given a timeout of \<open>2500000000000000\<close>
  nanoseconds, and the read and the write deadline are set that far ahead as well: not the
  configured timeout but a million times as much.
\<close>

theorem resolve_timeout_of_mainServer:
  "timeout mainServer = 2500000000
   \<and> timeout mainServer * Millisecond \<noteq> timeout mainServer
   \<and> trace (snd (snd (resolve deadUpstream mainServer initialWorld
        (createQuery wireFqdn 4660 ''example.com.'' ''A'')))) =
       [EvDialTimeout ''tcp'' ''1.1.1.1:53'' 2500000000000000]
   \<and> trace (snd (snd (resolve goodUpstream mainServer initialWorld
        (createQuery wireFqdn 4660 ''example.com.'' ''A'')))) =
       [EvDialTimeout ''tcp'' ''1.1.1.1:53'' 2500000000000000,
        EvSetReadDeadline 0 2500000000000000,
        EvSetWriteDeadline 0 2500000000000000,
        EvWriteMsg 0 (createQuery wireFqdn 4660 ''example.com.'' ''A''),
        EvReadMsg 0]"
proof -
  have ns: "nameserver mainServer = ''1.1.1.1:53''" by (simp add: mainServer_def)
  have dead: "DialTimeout deadUpstream (nameserver mainServer) (timeout mainServer * Millisecond)
                = Some (LibError ''dial tcp: i/o timeout'')"
    by (simp add: deadUpstream_def)
  have good: "DialTimeout goodUpstream (nameserver mainServer) (timeout mainServer * Millisecond)
                = None"
    by (simp add: goodUpstream_def)
  have wr: "WriteMsg goodUpstream q = None" for q by (simp add: goodUpstream_def)
  show ?thesis
    by (simp add: resolve_failed [OF dead] resolve_dialled [OF good] wr ns initialWorld_def)
       (simp add: mainServer_def Millisecond_def)
qed

text \<open>
  Claim C3 as stated fails. A round trip that succeeds returns with the connection it has
  dialled (handle 0, the one behind the server's connection field) still open.
\<close>

theorem resolve_leaves_connection_open:
  "fst (resolve goodUpstream mainServer initialWorld
          (createQuery wireFqdn 4660 ''example.com.'' ''A'')) =
     Inr (answerTo (createQuery wireFqdn 4660 ''example.com.'' ''A''))
   \<and> connOf (fst (snd (resolve goodUpstream mainServer initialWorld
                 (createQuery wireFqdn 4660 ''example.com.'' ''A''))))
            (snd (snd (resolve goodUpstream mainServer initialWorld
                 (createQuery wireFqdn 4660 ''example.com.'' ''A'')))) = Some 0
   \<and> isOpen 0 (snd (snd (resolve goodUpstream mainServer initialWorld
                 (createQuery wireFqdn 4660 ''example.com.'' ''A''))))"
proof -
  have good: "DialTimeout goodUpstream (nameserver mainServer) (timeout mainServer * Millisecond)
                = None"
    by (simp add: goodUpstream_def)
  have wr: "WriteMsg goodUpstream q = None" "ReadMsg goodUpstream q = Inr (answerTo q)" for q
    by (simp_all add: goodUpstream_def)
  show ?thesis
    by (simp add: resolve_dialled [OF good] wr connOf_def isOpen_def initialWorld_def)
qed

text \<open>
  Claim C3, amended. \<open>resolve\<close> closes no connection, on any outcome: the connections
  that exist when it returns are those that existed before, each as open as it was, and,
  when the dial succeeded, the connection opened for this call, which is open and is the
  one behind the server's connection field. When the dial failed there is no connection
  behind that field.
\<close>

theorem resolve_closes_nothing:
  "socks (snd (snd (resolve up s w msg))) =
     socks w @ (if DialTimeout up (nameserver s) (timeout s * Millisecond) = None
                then [True] else [])
   \<and> connOf (fst (snd (resolve up s w msg))) (snd (snd (resolve up s w msg))) =
       (if DialTimeout up (nameserver s) (timeout s * Millisecond) = None
        then Some (length (socks w)) else None)"
  by (cases "DialTimeout up (nameserver s) (timeout s * Millisecond)")
     (simp_all add: resolve_failed resolve_dialled connOf_def)

section \<open>Properties of the Request Decoder\<close>

text \<open>The decoders on bytes that unpack: both return the zero results with a nil error
  when the number of questions is not one.\<close>

lemma parseRequestFromGET_unpacked:
  assumes "URL_Query_dns r = EncodeToString bs" and "bs \<noteq> []" and "Unpack lib bs = Inr msg"
  shows "parseRequestFromGET lib s r w =
     ((if length (Question msg) \<noteq> 1 then ([], [], 0, None)
       else (Name (Question msg ! 0), TypeString lib (Qtype (Question msg ! 0)),
             Id_msg msg, None)), w)"
  using assms
  by (simp add: parseRequestFromGET_def Let_def DecodeString_EncodeToString
      EncodeToString_empty)

lemma parseRequestFromPOST_unpacked:
  assumes "Header_Content_Type r = ''application/dns-message''"
    and "Body_ReadAll r = (bs, None)" and "Unpack lib bs = Inr msg"
  shows "fst (parseRequestFromPOST lib s r w) =
     (if length (Question msg) \<noteq> 1 then ([], [], 0, None)
      else (Name (Question msg ! 0), TypeString lib (Qtype (Question msg ! 0)),
            Id_msg msg, None))"
  using assms by (simp add: parseRequestFromPOST_def Let_def)

lemma parseRequest_fst: "fst (parseRequest lib s r w) = decoded lib s r"
  by (simp add: decoded_def parseRequest_def parseRequestFromGET_def parseRequestFromPOST_def
      Let_def split: prod.splits sum.splits)

lemma parseRequest_net:
  "heap (snd (parseRequest lib s r w)) = heap w"
  "socks (snd (parseRequest lib s r w)) = socks w"
  by (simp_all add: parseRequest_def parseRequestFromGET_def parseRequestFromPOST_def
      Let_def emit_def logPrint_def split: prod.splits sum.splits)

lemma logPrint_net: "heap (logPrint l w) = heap w" "socks (logPrint l w) = socks w"
  "trace (logPrint l w) = trace w"
  by (simp_all add: logPrint_def)

text \<open>The decode stage on the sample requests.\<close>

lemma wireLib_fields:
  "Unpack wireLib = wireUnpack" "Pack wireLib = wirePack"
  "TypeString wireLib = wireTypeString" "Fqdn wireLib = wireFqdn"
  by (simp_all add: wireLib_def)

lemma Id_gen_goodUpstream: "Id_gen goodUpstream = 4660"
  by (simp add: goodUpstream_def)

lemma Id_gen_deadUpstream: "Id_gen deadUpstream = 4660"
  by (simp add: deadUpstream_def)

lemma Id_gen_nxUpstream: "Id_gen nxUpstream = 4660"
  by (simp add: nxUpstream_def)

lemma Id_gen_nodataUpstream: "Id_gen nodataUpstream = 4660"
  by (simp add: nodataUpstream_def)

lemma decoded_get_queryExample:
  "decoded wireLib mainServer (getRequest queryExample) = (''example.com.'', ''A'', 43981, None)"
proof -
  have "parseRequestFromGET wireLib mainServer (getRequest queryExample) initialWorld =
     ((if length (Question exampleMsg) \<noteq> 1 then ([], [], 0, None)
       else (Name (Question exampleMsg ! 0),
             TypeString wireLib (Qtype (Question exampleMsg ! 0)),
             Id_msg exampleMsg, None)), initialWorld)"
    by (rule parseRequestFromGET_unpacked [where bs = queryExample])
       (simp_all add: getRequest_def queryExample_nonempty wireLib_fields wireUnpack_queryExample)
  then show ?thesis
    by (simp add: decoded_def parseRequest_def getRequest_def exampleMsg_def wireLib_fields
        wireTypeString_def TypeA_def)
qed

lemma decoded_get_headerOnly:
  "decoded wireLib mainServer (getRequest headerOnly) = ([], [], 0, None)"
proof -
  have "parseRequestFromGET wireLib mainServer (getRequest headerOnly) initialWorld =
     ((if length (Question (zeroMsg\<lparr>RecursionDesired := True\<rparr>)) \<noteq> 1 then ([], [], 0, None)
       else (Name (Question (zeroMsg\<lparr>RecursionDesired := True\<rparr>) ! 0),
             TypeString wireLib (Qtype (Question (zeroMsg\<lparr>RecursionDesired := True\<rparr>) ! 0)),
             Id_msg (zeroMsg\<lparr>RecursionDesired := True\<rparr>), None)), initialWorld)"
    by (rule parseRequestFromGET_unpacked [where bs = headerOnly])
       (simp_all add: getRequest_def headerOnly_nonempty wireLib_fields wireUnpack_headerOnly)
  then show ?thesis
    by (simp add: decoded_def parseRequest_def getRequest_def zeroMsg_def)
qed

lemma decoded_post_text_plain:
  "decoded wireLib mainServer (postRequest ''text/plain'' queryExample) =
     ([], [], 0, Some (Errorf
        ''incorrect content type, expected 'application/dns-message', got text/plain''))"
  by (simp add: decoded_def parseRequest_def parseRequestFromPOST_def postRequest_def)

lemma decoded_post_twoQuestions:
  "decoded wireLib mainServer (postRequest ''application/dns-message'' twoQuestions) =
     ([], [], 0, None)"
proof -
  have "fst (parseRequestFromPOST wireLib mainServer
          (postRequest ''application/dns-message'' twoQuestions) initialWorld) =
        (if length (Question twoQuestionsMsg) \<noteq> 1 then ([], [], 0, None)
         else (Name (Question twoQuestionsMsg ! 0),
               TypeString wireLib (Qtype (Question twoQuestionsMsg ! 0)),
               Id_msg twoQuestionsMsg, None))"
    by (rule parseRequestFromPOST_unpacked [where bs = twoQuestions])
       (simp_all add: postRequest_def wireLib_fields wireUnpack_twoQuestions)
  then show ?thesis
    by (simp add: decoded_def parseRequest_def postRequest_def twoQuestionsMsg_def)
qed

section \<open>Properties of the handler\<close>

lemma Status_Error: "Status (Error newResponseWriter txt code) = Some code"
  by (simp add: Error_def Write_def WriteHeader_def Header_Set_def newResponseWriter_def Let_def)

lemma relay_writer:
  "Status (Write packed (Header_Set k v newResponseWriter)) = Some StatusOK"
  "Written (Write packed (Header_Set k v newResponseWriter)) = packed"
  "Header (Write packed (Header_Set k v newResponseWriter)) k = Some v"
  by (simp_all add: Write_def WriteHeader_def Header_Set_def newResponseWriter_def Let_def)

text \<open>The response of the handler and the server value it leaves, by the results of the
  decode stage, of the transport stage and of \<open>Pack\<close>.\<close>

lemma queryHandler_writer:
  assumes d: "decoded lib s r = (n, t, i, perr)"
  shows "fst (queryHandler lib up r s w rw) =
     (if perr \<noteq> None then Error rw (StatusText StatusBadRequest) StatusBadRequest
      else case resolved up s (createQuery (Fqdn lib) (Id_gen up) n t) of
             Inl e \<Rightarrow> Error rw (StatusText StatusInternalServerError) StatusInternalServerError
           | Inr response \<Rightarrow>
               (case Pack lib response of
                  Inl e \<Rightarrow> Error rw (StatusText StatusInternalServerError)
                             StatusInternalServerError
                | Inr packed \<Rightarrow>
                    Write packed (Header_Set ''Content-Type'' ''application/dns-message'' rw)))"
proof -
  obtain w1 where p: "parseRequest lib s r (logPrint LogHandling w) = ((n, t, i, perr), w1)"
    using parseRequest_fst [of lib s r "logPrint LogHandling w"] d
    by (cases "parseRequest lib s r (logPrint LogHandling w)") simp
  show ?thesis
  proof (cases perr)
    case (Some e)
    then show ?thesis by (simp add: queryHandler_def p Let_def)
  next
    case None
    define w2 where "w2 = (if verbose s then logPrint (LogResolving (Method r) n t i) w1 else w1)"
    define q where "q = createQuery (Fqdn lib) (Id_gen up) n t"
    obtain res s3 w3 where rs: "resolve up s w2 q = (res, s3, w3)"
      by (cases "resolve up s w2 q") auto
    have "res = resolved up s q" using resolve_fst [of up s w2 q] rs by simp
    then show ?thesis
      using None rs
      by (simp add: queryHandler_def p Let_def w2_def [symmetric] q_def [symmetric]
          split: sum.splits)
  qed
qed

lemma queryHandler_server:
  assumes d: "decoded lib s r = (n, t, i, perr)"
  shows "fst (snd (queryHandler lib up r s w rw)) =
     (if perr \<noteq> None then s else s\<lparr>connection := Some (length (heap w))\<rparr>)"
proof -
  obtain w1 where p: "parseRequest lib s r (logPrint LogHandling w) = ((n, t, i, perr), w1)"
    using parseRequest_fst [of lib s r "logPrint LogHandling w"] d
    by (cases "parseRequest lib s r (logPrint LogHandling w)") simp
  have h1: "heap w1 = heap w"
    using parseRequest_net(1) [of lib s r "logPrint LogHandling w"] p
    by (simp add: logPrint_net)
  show ?thesis
  proof (cases perr)
    case (Some e)
    then show ?thesis by (simp add: queryHandler_def p Let_def)
  next
    case None
    define w2 where "w2 = (if verbose s then logPrint (LogResolving (Method r) n t i) w1 else w1)"
    define q where "q = createQuery (Fqdn lib) (Id_gen up) n t"
    have h2: "heap w2 = heap w" by (simp add: w2_def h1 logPrint_net)
    obtain res s3 w3 where rs: "resolve up s w2 q = (res, s3, w3)"
      by (cases "resolve up s w2 q") auto
    have "s3 = s\<lparr>connection := Some (length (heap w))\<rparr>"
      using resolve_server [of up s w2 q] rs h2 by simp
    then show ?thesis
      using None rs
      by (simp add: queryHandler_def p Let_def w2_def [symmetric] q_def [symmetric]
          split: sum.splits)
  qed
qed

text \<open>The sample resolvers and the packed form of their answers.\<close>

lemma resolved_goodUpstream: "resolved goodUpstream s q = Inr (answerTo q)"
  by (simp add: resolved_def resolve_dialled goodUpstream_def)

lemma resolved_deadUpstream:
  "resolved deadUpstream s q = Inl (Errorf ''Failed starting resolver connection'')"
  by (simp add: resolved_def deadUpstream_def
      resolve_failed [where e = "LibError ''dial tcp: i/o timeout''"])

lemma resolved_nxUpstream:
  "resolved nxUpstream s q = Inr (q\<lparr>Response := True, RecursionAvailable := True, Rcode := 3\<rparr>)"
  by (simp add: resolved_def resolve_dialled nxUpstream_def)

lemma resolved_nodataUpstream:
  "resolved nodataUpstream s q = Inr (q\<lparr>Response := True, RecursionAvailable := True\<rparr>)"
  by (simp add: resolved_def resolve_dialled nodataUpstream_def)

lemmas wirePack_defs = wirePack_def createQuery_def answerTo_def zeroMsg_def zeroQuestion_def
  packName_def bytes_of_def packHeader_def hi8_def lo8_def flagBit_def wireFqdn_def
  TypeA_def TypeAAAA_def ClassINET_def OpcodeQuery_def RcodeSuccess_def Let_def

lemma wirePack_answer_root:
  "wirePack (answerTo (createQuery wireFqdn 4660 [] [])) =
     Inr [18, 52, 129, 128, 0, 1, 0, 1, 0, 0, 0, 0,
          0, 0, 28, 0, 1,
          0, 0, 28, 0, 1, 0, 0, 1, 44, 0, 4, 93, 184, 216, 34]"
  by (simp add: wirePack_defs)

lemma wirePack_answer_example:
  "wirePack (answerTo (createQuery wireFqdn 4660 ''example.com.'' ''A'')) =
     Inr [18, 52, 129, 128, 0, 1, 0, 1, 0, 0, 0, 0,
          7, 101, 120, 97, 109, 112, 108, 101, 3, 99, 111, 109, 0, 0, 1, 0, 1,
          7, 101, 120, 97, 109, 112, 108, 101, 3, 99, 111, 109, 0, 0, 1, 0, 1,
          0, 0, 1, 44, 0, 4, 93, 184, 216, 34]"
  by (simp add: wirePack_defs)

lemma wirePack_nxdomain_example:
  "wirePack ((createQuery wireFqdn 4660 ''example.com.'' ''A'')
       \<lparr>Response := True, RecursionAvailable := True, Rcode := 3\<rparr>) =
     Inr [18, 52, 129, 131, 0, 1, 0, 0, 0, 0, 0, 0,
          7, 101, 120, 97, 109, 112, 108, 101, 3, 99, 111, 109, 0, 0, 1, 0, 1]"
  by (simp add: wirePack_defs)

lemma wirePack_nodata_root:
  "wirePack ((createQuery wireFqdn 4660 [] [])\<lparr>Response := True, RecursionAvailable := True\<rparr>) =
     Inr [18, 52, 129, 128, 0, 1, 0, 0, 0, 0, 0, 0, 0, 0, 28, 0, 1]"
  by (simp add: wirePack_defs)

section \<open>The claims about decoding\<close>

text \<open>The errors of the decode stage, one request for each: no \<open>dns\<close> parameter, a
  parameter that is not base64url, a method other than GET and POST, a wrong content type
  (above), and a body that does not unpack.\<close>

lemma decoded_missing_parameter:
  "decoded wireLib mainServer (getWithParam []) =
     ([], [], 0, Some (Errorf ''Missing DNS query parameter in GET request''))"
  by (simp add: decoded_def parseRequest_def parseRequestFromGET_def getWithParam_def)

lemma DecodeString_not_base64: "DecodeString ''not-base64!!'' = ([], Some CorruptInputError)"
  by (simp add: DecodeString_def decodeBytes_def decodeMap_def encodeURL_def)

lemma decoded_bad_base64:
  "decoded wireLib mainServer (getWithParam ''not-base64!!'') = ([], [], 0, Some CorruptInputError)"
  by (simp add: decoded_def parseRequest_def parseRequestFromGET_def getWithParam_def
      DecodeString_not_base64)

lemma decoded_unsupported_method:
  "decoded wireLib mainServer
     ((postRequest ''application/dns-message'' queryExample)\<lparr>Method := ''PUT''\<rparr>) =
     ([], [], 0, Some (Errorf ''unsupported HTTP method''))"
  by (simp add: decoded_def parseRequest_def postRequest_def)

lemma decoded_empty_body:
  "decoded wireLib mainServer (postRequest ''application/dns-message'' []) =
     ([], [], 0, Some (LibError ''dns: overflow unpacking uint16''))"
  by (simp add: decoded_def parseRequest_def parseRequestFromPOST_def postRequest_def
      wireLib_fields wireUnpack_def)

text \<open>
  Claim C1 (the code departs from it). A GET request whose \<open>dns\<close> parameter is the
  base64url form of a 12-byte message without a question, and a POST request whose body
  holds two questions, both unpack, and for both the decoder returns a nil error with
  empty name and type and id 0. The handler then does not answer 400: for the GET request
  it builds the query for \<open>Fqdn ""\<close> with type AAAA, resolves it and relays the packed
  answer with status 200.
\<close>

theorem question_count_violation_returns_nil_error:
  "Unpack wireLib headerOnly = Inr (zeroMsg\<lparr>RecursionDesired := True\<rparr>)
   \<and> length (Question (zeroMsg\<lparr>RecursionDesired := True\<rparr>)) = 0
   \<and> parseRequestFromGET wireLib mainServer (getRequest headerOnly) initialWorld =
       (([], [], 0, None), initialWorld)
   \<and> Unpack wireLib twoQuestions = Inr twoQuestionsMsg
   \<and> length (Question twoQuestionsMsg) = 2
   \<and> fst (parseRequestFromPOST wireLib mainServer
             (postRequest ''application/dns-message'' twoQuestions) initialWorld) =
       ([], [], 0, None)
   \<and> Status (fst (queryHandler wireLib goodUpstream (getRequest headerOnly) mainServer
                 initialWorld newResponseWriter)) = Some StatusOK
   \<and> Written (fst (queryHandler wireLib goodUpstream (getRequest headerOnly) mainServer
                 initialWorld newResponseWriter)) =
       [18, 52, 129, 128, 0, 1, 0, 1, 0, 0, 0, 0, 0, 0, 28, 0, 1,
        0, 0, 28, 0, 1, 0, 0, 1, 44, 0, 4, 93, 184, 216, 34]"
proof -
  have g: "parseRequestFromGET wireLib mainServer (getRequest headerOnly) initialWorld =
       (([], [], 0, None), initialWorld)"
    using parseRequestFromGET_unpacked [where bs = headerOnly and lib = wireLib
        and r = "getRequest headerOnly" and msg = "zeroMsg\<lparr>RecursionDesired := True\<rparr>"
        and s = mainServer and w = initialWorld]
    by (simp add: getRequest_def headerOnly_nonempty wireLib_fields wireUnpack_headerOnly
        zeroMsg_def)
  have p: "fst (parseRequestFromPOST wireLib mainServer
             (postRequest ''application/dns-message'' twoQuestions) initialWorld) =
       ([], [], 0, None)"
    using parseRequestFromPOST_unpacked [where bs = twoQuestions and lib = wireLib
        and r = "postRequest ''application/dns-message'' twoQuestions"
        and msg = twoQuestionsMsg and s = mainServer and w = initialWorld]
    by (simp add: postRequest_def wireLib_fields wireUnpack_twoQuestions twoQuestionsMsg_def)
  have h: "fst (queryHandler wireLib goodUpstream (getRequest headerOnly) mainServer
                 initialWorld newResponseWriter) =
       Write [18, 52, 129, 128, 0, 1, 0, 1, 0, 0, 0, 0, 0, 0, 28, 0, 1,
              0, 0, 28, 0, 1, 0, 0, 1, 44, 0, 4, 93, 184, 216, 34]
         (Header_Set ''Content-Type'' ''application/dns-message'' newResponseWriter)"
    by (simp add: queryHandler_writer [OF decoded_get_headerOnly] resolved_goodUpstream
        wireLib_fields Id_gen_goodUpstream wirePack_answer_root)
  have q: "Question zeroMsg = []" "length (Question twoQuestionsMsg) = 2"
    by (simp_all add: zeroMsg_def twoQuestionsMsg_def)
  show ?thesis
    by (simp add: g p h q relay_writer wireLib_fields wireUnpack_headerOnly
        wireUnpack_twoQuestions)
qed


text \<open>
  Claim C7. For every POST request whose Content-Type header is not exactly
  \<^verbatim>\<open>application/dns-message\<close>, \<open>parseRequestFromPOST\<close> returns an error and leaves the
  world as it was: the body is not read (no event is added) and the result does not
  depend on the body or on the library, so nothing is parsed. The handler answers with
  status 400 and, likewise, has not touched the body or the network.
\<close>

theorem post_content_type_gate:
  assumes "Method r = ''POST''"
    and "Header_Content_Type r \<noteq> ''application/dns-message''"
  shows "parseRequestFromPOST lib s r w =
       (([], [], 0, Some (Errorf
          (''incorrect content type, expected 'application/dns-message', got '' @
           Header_Content_Type r))), w)
     \<and> Status (fst (queryHandler lib up r s w newResponseWriter)) = Some StatusBadRequest
     \<and> trace (snd (snd (queryHandler lib up r s w newResponseWriter))) = trace w"
  using assms
  by (simp add: parseRequestFromPOST_def queryHandler_def parseRequest_def Let_def
      Status_Error logPrint_net)

theorem post_content_type_gate_witness:
  "Method (postRequest ''text/plain'' queryExample) = ''POST''
   \<and> Header_Content_Type (postRequest ''text/plain'' queryExample) \<noteq> ''application/dns-message''
   \<and> Unpack wireLib queryExample = Inr exampleMsg
   \<and> parseRequestFromPOST wireLib mainServer (postRequest ''text/plain'' queryExample)
        initialWorld =
       (([], [], 0, Some (Errorf
          ''incorrect content type, expected 'application/dns-message', got text/plain'')),
        initialWorld)
   \<and> Status (fst (queryHandler wireLib goodUpstream (postRequest ''text/plain'' queryExample)
                 mainServer initialWorld newResponseWriter)) = Some 400
   \<and> trace (snd (snd (queryHandler wireLib goodUpstream
                 (postRequest ''text/plain'' queryExample)
                 mainServer initialWorld newResponseWriter))) = []"
proof -
  have m: "Method (postRequest ''text/plain'' queryExample) = ''POST''"
    by (simp add: postRequest_def)
  have c: "Header_Content_Type (postRequest ''text/plain'' queryExample)
             \<noteq> ''application/dns-message''"
    by (simp add: postRequest_def)
  have t: "Header_Content_Type (postRequest ''text/plain'' queryExample) = ''text/plain''"
    by (simp add: postRequest_def)
  show ?thesis
    using post_content_type_gate [OF m c, of wireLib mainServer initialWorld goodUpstream]
    by (simp add: m t wireLib_fields wireUnpack_queryExample StatusBadRequest_def)
       (simp add: initialWorld_def)
qed

text \<open>
  Claim C9. Let \<open>m\<close> be a query message with one question \<open>q\<close> that the library packs
  to the bytes \<open>bs\<close> and unpacks from them with the same question section (a packed
  message is never empty: it starts with the 12-byte header). For a GET request whose
  \<open>dns\<close> parameter is the unpadded base64url form of \<open>bs\<close>, \<open>parseRequestFromGET\<close>
  returns no error, the name of \<open>q\<close> and the (symbolic) type of \<open>q\<close>.
\<close>

theorem get_round_trip:
  assumes "Pack lib m = Inr bs" and "bs \<noteq> []"
    and "Unpack lib bs = Inr m'" and "Question m' = Question m" and "Question m = [q]"
    and "URL_Query_dns r = EncodeToString bs"
  shows "parseRequestFromGET lib s r w =
           ((Name q, TypeString lib (Qtype q), Id_msg m', None), w)"
  using parseRequestFromGET_unpacked [OF assms(6) assms(2) assms(3), of s w] assms(4,5)
  by simp

theorem get_round_trip_witness:
  "Pack wireLib exampleMsg = Inr queryExample
   \<and> queryExample \<noteq> []
   \<and> Unpack wireLib queryExample = Inr exampleMsg
   \<and> Question exampleMsg = [\<lparr>Name = ''example.com.'', Qtype = TypeA, Qclass = ClassINET\<rparr>]
   \<and> URL_Query_dns (getRequest queryExample) = EncodeToString queryExample
   \<and> parseRequestFromGET wireLib mainServer (getRequest queryExample) initialWorld =
       ((''example.com.'', ''A'', 0xABCD, None), initialWorld)"
proof -
  have pk: "Pack wireLib exampleMsg = Inr queryExample"
    by (simp add: wireLib_def wirePack_exampleMsg)
  have un: "Unpack wireLib queryExample = Inr exampleMsg"
    by (simp add: wireLib_def wireUnpack_queryExample)
  have qs: "Question exampleMsg = [\<lparr>Name = ''example.com.'', Qtype = TypeA, Qclass = ClassINET\<rparr>]"
    by (simp add: exampleMsg_def)
  have ur: "URL_Query_dns (getRequest queryExample) = EncodeToString queryExample"
    by (simp add: getRequest_def)
  have idm: "Id_msg exampleMsg = 0xABCD"
    by (simp add: exampleMsg_def zeroMsg_def)
  show ?thesis
    using get_round_trip [OF pk queryExample_nonempty un refl qs ur, of mainServer initialWorld]
    by (simp add: qs ur idm queryExample_nonempty wireLib_fields wirePack_exampleMsg
        wireUnpack_queryExample wireTypeString_def TypeA_def)
qed

section \<open>The claims about the handler\<close>

text \<open>
  Claim C4 as stated fails. Handling the sample GET request with the server value built by
  \<open>main\<close> changes the connection field of that value.
\<close>

theorem queryHandler_changes_connection:
  "connection mainServer = None
   \<and> connection (fst (snd (queryHandler wireLib goodUpstream (getRequest queryExample)
        mainServer initialWorld newResponseWriter))) = Some 0"
proof -
  have "connection (fst (snd (queryHandler wireLib goodUpstream (getRequest queryExample)
          mainServer initialWorld newResponseWriter))) = Some (length (heap initialWorld))"
    by (simp add: queryHandler_server [OF decoded_get_queryExample])
  then show ?thesis by (simp add: initialWorld_def mainServer_def)
qed

text \<open>
  Claim C4, amended. Handling one request leaves the configuration fields of the
  \<open>odohServer\<close> value (verbose, nameserver, timeout) as they were. The connection field is
  left as it was when the decode stage returns an error; otherwise it is overwritten with
  the address of a \<open>dns.Conn\<close> allocated for this request (the next free address of the
  heap), so that field is state of the server that changes from request to request.
\<close>

theorem queryHandler_server_fields:
  "verbose (fst (snd (queryHandler lib up r s w rw))) = verbose s
   \<and> nameserver (fst (snd (queryHandler lib up r s w rw))) = nameserver s
   \<and> timeout (fst (snd (queryHandler lib up r s w rw))) = timeout s
   \<and> connection (fst (snd (queryHandler lib up r s w rw))) =
       (if errOf (decoded lib s r) \<noteq> None then connection s else Some (length (heap w)))"
proof -
  obtain n t i perr where d: "decoded lib s r = (n, t, i, perr)"
    by (cases "decoded lib s r") auto
  show ?thesis
    by (simp add: queryHandler_server [OF d] d errOf_def)
qed

text \<open>
  The status by stage, for the errors that the stages return. Let the decode stage return
  the name \<open>n\<close>, the type \<open>t\<close>, the id \<open>i\<close> and the error \<open>perr\<close>. If \<open>perr\<close> is
  not nil, whatever error it is, the status is 400. If it is nil and \<open>resolve\<close> returns an
  error for the synthesized query, the status is 500; if \<open>resolve\<close> returns a response
  that \<open>Pack\<close> fails on, the status is 500. The one remaining path, where every stage
  succeeds, has status 200.
\<close>

lemma queryHandler_error_status:
  assumes "decoded lib s r = (n, t, i, perr)"
  shows "(perr \<noteq> None \<longrightarrow>
            Status (fst (queryHandler lib up r s w newResponseWriter)) = Some StatusBadRequest)
     \<and> (perr = None \<longrightarrow>
          (\<forall>e. resolved up s (createQuery (Fqdn lib) (Id_gen up) n t) = Inl e \<longrightarrow>
             Status (fst (queryHandler lib up r s w newResponseWriter)) =
               Some StatusInternalServerError))
     \<and> (perr = None \<longrightarrow>
          (\<forall>response e.
             resolved up s (createQuery (Fqdn lib) (Id_gen up) n t) = Inr response \<longrightarrow>
             Pack lib response = Inl e \<longrightarrow>
             Status (fst (queryHandler lib up r s w newResponseWriter)) =
               Some StatusInternalServerError))
     \<and> (perr = None \<longrightarrow>
          (\<forall>response packed.
             resolved up s (createQuery (Fqdn lib) (Id_gen up) n t) = Inr response \<longrightarrow>
             Pack lib response = Inr packed \<longrightarrow>
             Status (fst (queryHandler lib up r s w newResponseWriter)) = Some StatusOK))"
  by (auto simp: queryHandler_writer [OF assms] Status_Error relay_writer)

text \<open>The requests whose decoding does return an error get status 400: no \<open>dns\<close>
  parameter, a parameter that is not base64url, a method other than GET and POST, a wrong
  content type, a body that does not unpack. A dial that fails gets status 500.\<close>

lemma queryHandler_error_status_examples:
  "Status (fst (queryHandler wireLib goodUpstream (getWithParam [])
                 mainServer initialWorld newResponseWriter)) = Some 400
   \<and> Status (fst (queryHandler wireLib goodUpstream (getWithParam ''not-base64!!'')
                 mainServer initialWorld newResponseWriter)) = Some 400
   \<and> Status (fst (queryHandler wireLib goodUpstream
                 ((postRequest ''application/dns-message'' queryExample)\<lparr>Method := ''PUT''\<rparr>)
                 mainServer initialWorld newResponseWriter)) = Some 400
   \<and> Status (fst (queryHandler wireLib goodUpstream (postRequest ''text/plain'' queryExample)
                 mainServer initialWorld newResponseWriter)) = Some 400
   \<and> Status (fst (queryHandler wireLib goodUpstream
                 (postRequest ''application/dns-message'' [])
                 mainServer initialWorld newResponseWriter)) = Some 400
   \<and> Status (fst (queryHandler wireLib deadUpstream (getRequest queryExample)
                 mainServer initialWorld newResponseWriter)) = Some 500"
proof -
  note st = StatusBadRequest_def StatusInternalServerError_def StatusOK_def
  show ?thesis
    using queryHandler_error_status [OF decoded_missing_parameter, of goodUpstream initialWorld]
      queryHandler_error_status [OF decoded_bad_base64, of goodUpstream initialWorld]
      queryHandler_error_status [OF decoded_unsupported_method, of goodUpstream initialWorld]
      queryHandler_error_status [OF decoded_post_text_plain, of goodUpstream initialWorld]
      queryHandler_error_status [OF decoded_empty_body, of goodUpstream initialWorld]
      queryHandler_error_status [OF decoded_get_queryExample, of deadUpstream initialWorld]
    by (simp add: wireLib_fields Id_gen_deadUpstream resolved_deadUpstream st)
qed

text \<open>A request that unpacks with a number of questions other than one is decoded with
  a nil error, for every library; the handler then answers 200 or 500, never 400, for
  every library and every resolver.\<close>

lemma status_after_decode:
  assumes "decoded lib s r = (n, t, i, None)"
  shows "Status (fst (queryHandler lib up r s w newResponseWriter)) = Some StatusOK
       \<or> Status (fst (queryHandler lib up r s w newResponseWriter)) =
            Some StatusInternalServerError"
  by (simp add: queryHandler_writer [OF assms] Status_Error relay_writer split: sum.splits)

lemma question_count_get_not_400:
  assumes "Method r = ''GET''" and "URL_Query_dns r = EncodeToString bs" and "bs \<noteq> []"
    and "Unpack lib bs = Inr msg" and "length (Question msg) \<noteq> 1"
  shows "decoded lib s r = ([], [], 0, None)"
    and "Status (fst (queryHandler lib up r s w newResponseWriter)) \<noteq> Some StatusBadRequest"
proof -
  show d: "decoded lib s r = ([], [], 0, None)"
    using parseRequestFromGET_unpacked [OF assms(2,3,4), of s initialWorld] assms(1,5)
    by (simp add: decoded_def parseRequest_def)
  show "Status (fst (queryHandler lib up r s w newResponseWriter)) \<noteq> Some StatusBadRequest"
    using status_after_decode [OF d, of up w]
    by (auto simp: StatusOK_def StatusBadRequest_def StatusInternalServerError_def)
qed

lemma question_count_post_not_400:
  assumes "Method r = ''POST''" and "Header_Content_Type r = ''application/dns-message''"
    and "Body_ReadAll r = (bs, None)"
    and "Unpack lib bs = Inr msg" and "length (Question msg) \<noteq> 1"
  shows "decoded lib s r = ([], [], 0, None)"
    and "Status (fst (queryHandler lib up r s w newResponseWriter)) \<noteq> Some StatusBadRequest"
proof -
  show d: "decoded lib s r = ([], [], 0, None)"
    using parseRequestFromPOST_unpacked [OF assms(2,3,4), of s initialWorld] assms(1,5)
    by (simp add: decoded_def parseRequest_def)
  show "Status (fst (queryHandler lib up r s w newResponseWriter)) \<noteq> Some StatusBadRequest"
    using status_after_decode [OF d, of up w]
    by (auto simp: StatusOK_def StatusBadRequest_def StatusInternalServerError_def)
qed

text \<open>
  Claim C8 (the code departs from it). The claim counts the question-count violation
  among the decode-stage errors that yield status 400. For the GET request carrying the
  12-byte message without a question, and for the POST request carrying two questions,
  the decode stage returns a nil error; the status is 200 when the resolver answers the
  synthesized query and 500 when the resolver cannot be reached, and in neither case 400.
  This is the slip of the decoder's question-count guard seen at the handler; for the
  errors that the stages do return the mapping is the one claimed
  (\<open>queryHandler_error_status\<close>).
\<close>

theorem question_count_violation_status_not_400:
  "Unpack wireLib headerOnly = Inr (zeroMsg\<lparr>RecursionDesired := True\<rparr>)
   \<and> Question (zeroMsg\<lparr>RecursionDesired := True\<rparr>) = []
   \<and> errOf (decoded wireLib mainServer (getRequest headerOnly)) = None
   \<and> Status (fst (queryHandler wireLib nodataUpstream (getRequest headerOnly) mainServer
                 initialWorld newResponseWriter)) = Some 200
   \<and> Status (fst (queryHandler wireLib deadUpstream (getRequest headerOnly) mainServer
                 initialWorld newResponseWriter)) = Some 500
   \<and> Unpack wireLib twoQuestions = Inr twoQuestionsMsg
   \<and> length (Question twoQuestionsMsg) = 2
   \<and> errOf (decoded wireLib mainServer
               (postRequest ''application/dns-message'' twoQuestions)) = None
   \<and> Status (fst (queryHandler wireLib nodataUpstream
                 (postRequest ''application/dns-message'' twoQuestions) mainServer
                 initialWorld newResponseWriter)) = Some 200
   \<and> Status (fst (queryHandler wireLib deadUpstream
                 (postRequest ''application/dns-message'' twoQuestions) mainServer
                 initialWorld newResponseWriter)) = Some 500"
proof -
  note f = wireLib_fields
  note i = Id_gen_nodataUpstream Id_gen_deadUpstream
  note st = StatusOK_def StatusInternalServerError_def
  have g: "Status (fst (queryHandler wireLib nodataUpstream (getRequest headerOnly) mainServer
                 initialWorld newResponseWriter)) = Some 200"
    "Status (fst (queryHandler wireLib deadUpstream (getRequest headerOnly) mainServer
                 initialWorld newResponseWriter)) = Some 500"
    by (simp_all add: queryHandler_writer [OF decoded_get_headerOnly] f i
        resolved_nodataUpstream resolved_deadUpstream wirePack_nodata_root relay_writer
        Status_Error st)
  have p: "Status (fst (queryHandler wireLib nodataUpstream
                 (postRequest ''application/dns-message'' twoQuestions) mainServer
                 initialWorld newResponseWriter)) = Some 200"
    "Status (fst (queryHandler wireLib deadUpstream
                 (postRequest ''application/dns-message'' twoQuestions) mainServer
                 initialWorld newResponseWriter)) = Some 500"
    by (simp_all add: queryHandler_writer [OF decoded_post_twoQuestions] f i
        resolved_nodataUpstream resolved_deadUpstream wirePack_nodata_root relay_writer
        Status_Error st)
  have q: "Question zeroMsg = []" "length (Question twoQuestionsMsg) = 2"
    by (simp_all add: zeroMsg_def twoQuestionsMsg_def)
  show ?thesis
    by (simp add: g p q f errOf_def decoded_get_headerOnly decoded_post_twoQuestions
        wireUnpack_headerOnly wireUnpack_twoQuestions)
qed


text \<open>
  Claim C10. When the request decodes, \<open>resolve\<close> returns an answer for the synthesized
  query and \<open>Pack\<close> succeeds on that answer, whatever its response code and records, the
  handler sets the Content-Type header of the response to \<^verbatim>\<open>application/dns-message\<close>
  and the body it writes is exactly the bytes that \<open>Pack\<close> has produced, with status 200.
\<close>

theorem queryHandler_relays_packed_answer:
  assumes "decoded lib s r = (n, t, i, None)"
    and "resolved up s (createQuery (Fqdn lib) (Id_gen up) n t) = Inr response"
    and "Pack lib response = Inr packed"
  shows "Header (fst (queryHandler lib up r s w newResponseWriter)) ''Content-Type'' =
           Some ''application/dns-message''
     \<and> Written (fst (queryHandler lib up r s w newResponseWriter)) = packed
     \<and> Status (fst (queryHandler lib up r s w newResponseWriter)) = Some StatusOK"
  by (simp add: queryHandler_writer [OF assms(1)] assms(2,3) relay_writer)

theorem queryHandler_relays_packed_answer_witness:
  "decoded wireLib mainServer (getRequest queryExample) = (''example.com.'', ''A'', 43981, None)
   \<and> resolved nxUpstream mainServer (createQuery wireFqdn 4660 ''example.com.'' ''A'') =
       Inr ((createQuery wireFqdn 4660 ''example.com.'' ''A'')
              \<lparr>Response := True, RecursionAvailable := True, Rcode := 3\<rparr>)
   \<and> Header (fst (queryHandler wireLib nxUpstream (getRequest queryExample) mainServer
                 initialWorld newResponseWriter)) ''Content-Type'' =
       Some ''application/dns-message''
   \<and> Written (fst (queryHandler wireLib nxUpstream (getRequest queryExample) mainServer
                 initialWorld newResponseWriter)) =
       [18, 52, 129, 131, 0, 1, 0, 0, 0, 0, 0, 0,
        7, 101, 120, 97, 109, 112, 108, 101, 3, 99, 111, 109, 0, 0, 1, 0, 1]
   \<and> Written (fst (queryHandler wireLib goodUpstream (getRequest queryExample) mainServer
                 initialWorld newResponseWriter)) =
       [18, 52, 129, 128, 0, 1, 0, 1, 0, 0, 0, 0,
        7, 101, 120, 97, 109, 112, 108, 101, 3, 99, 111, 109, 0, 0, 1, 0, 1,
        7, 101, 120, 97, 109, 112, 108, 101, 3, 99, 111, 109, 0, 0, 1, 0, 1,
        0, 0, 1, 44, 0, 4, 93, 184, 216, 34]"
proof -
  note f = wireLib_fields
  note i = Id_gen_goodUpstream Id_gen_nxUpstream
  have nx: "resolved nxUpstream mainServer
              (createQuery (Fqdn wireLib) (Id_gen nxUpstream) ''example.com.'' ''A'') =
            Inr ((createQuery wireFqdn 4660 ''example.com.'' ''A'')
                   \<lparr>Response := True, RecursionAvailable := True, Rcode := 3\<rparr>)"
    by (simp add: f i resolved_nxUpstream)
  have gd: "resolved goodUpstream mainServer
              (createQuery (Fqdn wireLib) (Id_gen goodUpstream) ''example.com.'' ''A'') =
            Inr (answerTo (createQuery wireFqdn 4660 ''example.com.'' ''A''))"
    by (simp add: f i resolved_goodUpstream)
  have pn: "Pack wireLib ((createQuery wireFqdn 4660 ''example.com.'' ''A'')
                   \<lparr>Response := True, RecursionAvailable := True, Rcode := 3\<rparr>) =
            Inr [18, 52, 129, 131, 0, 1, 0, 0, 0, 0, 0, 0,
                 7, 101, 120, 97, 109, 112, 108, 101, 3, 99, 111, 109, 0, 0, 1, 0, 1]"
    by (simp only: f wirePack_nxdomain_example)
  have pg: "Pack wireLib (answerTo (createQuery wireFqdn 4660 ''example.com.'' ''A'')) =
            Inr [18, 52, 129, 128, 0, 1, 0, 1, 0, 0, 0, 0,
                 7, 101, 120, 97, 109, 112, 108, 101, 3, 99, 111, 109, 0, 0, 1, 0, 1,
                 7, 101, 120, 97, 109, 112, 108, 101, 3, 99, 111, 109, 0, 0, 1, 0, 1,
                 0, 0, 1, 44, 0, 4, 93, 184, 216, 34]"
    by (simp only: f wirePack_answer_example)
  show ?thesis
    using queryHandler_relays_packed_answer [OF decoded_get_queryExample nx pn, of initialWorld]
      queryHandler_relays_packed_answer [OF decoded_get_queryExample gd pg, of initialWorld]
    by (simp add: decoded_get_queryExample resolved_nxUpstream)
qed

end
